theory Spec2Isabelle
  imports Complex_Main "HOL-Library.Sublist"
begin

section \<open>Python values, exceptions and dictionaries\<close>

text \<open>
  The benchmark scripts are Python. A raised exception is a value \<open>Inl e\<close> of a sum type,
  a returned value is \<open>Inr v\<close>. A finite Python float is the real number it denotes.
  Where a result depends on how float arithmetic rounds (sums and averages of samples,
  parsed numerals, ratios of the reports), the operation rounds with \<open>round_double\<close>
  below; \<open>truediv\<close> is the quotient itself, used for the workload rates of the Memgraph
  side. A dictionary is an association list in the order the source writes its keys; the
  empty dictionary \<open>{}\<close> is \<open>[]\<close>.
\<close>

datatype py_error =
  StatisticsError | ZeroDivisionError | TypeError | ValueError | KeyError | IndexError

datatype pyval = PyFloat real | PyStr string | PyBool bool | PyInt int

type_synonym dict = "(string \<times> pyval) list"

definition py_bind :: "py_error + 'a \<Rightarrow> ('a \<Rightarrow> py_error + 'b) \<Rightarrow> py_error + 'b" where
  "py_bind m f = (case m of Inl e \<Rightarrow> Inl e | Inr v \<Rightarrow> f v)"

definition truediv :: "real \<Rightarrow> real \<Rightarrow> py_error + real" where
  "truediv a b = (if b = 0 then Inl ZeroDivisionError else Inr (a / b))"

definition getitem :: "dict \<Rightarrow> string \<Rightarrow> py_error + pyval" where
  "getitem d k = (case map_of d k of None \<Rightarrow> Inl KeyError | Some v \<Rightarrow> Inr v)"

text \<open>\<open>except Exception: return {}\<close>: every exception of the body becomes the empty dictionary.\<close>

definition except_empty :: "py_error + dict \<Rightarrow> dict" where
  "except_empty r = (case r of Inl e \<Rightarrow> [] | Inr d \<Rightarrow> d)"

section \<open>Float arithmetic\<close>

text \<open>
  IEEE 754 double precision, round to nearest, ties to even, for magnitudes in the normal
  range (overflow and subnormal numbers are outside this model; CPU percentages,
  megabytes and milliseconds are far inside it). \<open>find_exp\<close> looks for the binary
  exponent \<open>e\<close> with \<open>2^e \<le> |x| < 2^(e+1)\<close>, starting at 0, in at most as many steps as a
  double has exponents; \<open>round_double\<close> keeps 53 significant bits. \<open>float_add\<close> and
  \<open>float_div\<close> are \<open>+\<close> and \<open>/\<close> on floats.
\<close>

definition round_half_even :: "real \<Rightarrow> int" where
  "round_half_even x =
     (let f = \<lfloor>x\<rfloor>; d = x - of_int f
      in if d < 1 / 2 then f else if 1 / 2 < d then f + 1 else if even f then f else f + 1)"

fun find_exp :: "nat \<Rightarrow> int \<Rightarrow> real \<Rightarrow> int" where
  "find_exp 0 e x = e"
| "find_exp (Suc n) e x =
     (if 2 powi (e + 1) \<le> x then find_exp n (e + 1) x
      else if x < 2 powi e then find_exp n (e - 1) x
      else e)"

definition round_double :: "real \<Rightarrow> real" where
  "round_double x =
     (if x = 0 then 0
      else let s = 2 powi (find_exp 1100 0 \<bar>x\<bar> - 52)
           in of_int (round_half_even (x / s)) * s)"

definition float_add :: "real \<Rightarrow> real \<Rightarrow> real" where
  "float_add a b = round_double (a + b)"

definition float_div :: "real \<Rightarrow> real \<Rightarrow> py_error + real" where
  "float_div a b = (if b = 0 then Inl ZeroDivisionError else Inr (round_double (a / b)))"

section \<open>Aggregation of a sample series\<close>

text \<open>
  The builtins \<open>sum\<close>, \<open>max\<close>, \<open>min\<close> and \<open>statistics.mean\<close> on a list of floats. \<open>sum\<close>
  starts from the integer 0 and adds from left to right, rounding after every addition
  (CPython up to 3.11; the compensated sum of later versions returns the same value on
  the lists evaluated below). \<open>statistics.mean\<close> adds exactly, as fractions, and rounds the
  quotient once.
\<close>

definition sum_py :: "real list \<Rightarrow> real" where
  "sum_py xs = foldl float_add 0 xs"

fun max_py :: "real list \<Rightarrow> py_error + real" where
  "max_py [] = Inl ValueError"
| "max_py (x # xs) = Inr (foldl (\<lambda>m item. if item > m then item else m) x xs)"

fun min_py :: "real list \<Rightarrow> py_error + real" where
  "min_py [] = Inl ValueError"
| "min_py (x # xs) = Inr (foldl (\<lambda>m item. if item < m then item else m) x xs)"

definition mean :: "real list \<Rightarrow> py_error + real" where
  "mean data =
     (if length data < 1 then Inl StatisticsError
      else Inr (round_double (sum_list data / real (length data))))"

text \<open>
  \<open>ResourceBenchmark.monitor_resources\<close>, its \<open>return\<close> statement (resource\_benchmark.py,
  lines 53 to 62) on the three lists the sampling loop has filled.
\<close>

definition monitor_resources_return ::
  "real list \<Rightarrow> real list \<Rightarrow> (int \<times> int) list \<Rightarrow> py_error + dict" where
  "monitor_resources_return cpu_usage memory_usage disk_io =
     py_bind (mean cpu_usage) (\<lambda>cpu_avg.
     py_bind (max_py cpu_usage) (\<lambda>cpu_max.
     py_bind (min_py cpu_usage) (\<lambda>cpu_min.
     py_bind (mean memory_usage) (\<lambda>memory_avg.
     py_bind (max_py memory_usage) (\<lambda>memory_max.
     py_bind (min_py memory_usage) (\<lambda>memory_min.
       Inr [(''cpu_avg'', PyFloat cpu_avg),
            (''cpu_max'', PyFloat cpu_max),
            (''cpu_min'', PyFloat cpu_min),
            (''memory_avg_gb'', PyFloat memory_avg),
            (''memory_max_gb'', PyFloat memory_max),
            (''memory_min_gb'', PyFloat memory_min),
            (''disk_read_total_mb'',
               PyFloat (real_of_int (sum_list (map fst disk_io)) / (1024 * 1024))),
            (''disk_write_total_mb'',
               PyFloat (real_of_int (sum_list (map snd disk_io)) / (1024 * 1024)))]))))))"

text \<open>
  \<open>AccurateResourceBenchmark.monitor_process_resources\<close>, from its guard to its \<open>return\<close>
  (accurate\_resource\_benchmark.py, lines 72 to 82).
\<close>

definition monitor_process_return :: "real list \<Rightarrow> real list \<Rightarrow> py_error + dict" where
  "monitor_process_return cpu_usage memory_usage =
     (if cpu_usage = [] \<or> memory_usage = [] then Inr []
      else
        py_bind (float_div (sum_py cpu_usage) (real (length cpu_usage))) (\<lambda>cpu_avg.
        py_bind (max_py cpu_usage) (\<lambda>cpu_max.
        py_bind (min_py cpu_usage) (\<lambda>cpu_min.
        py_bind (float_div (sum_py memory_usage) (real (length memory_usage))) (\<lambda>memory_avg.
        py_bind (max_py memory_usage) (\<lambda>memory_max.
        py_bind (min_py memory_usage) (\<lambda>memory_min.
          Inr [(''cpu_avg'', PyFloat cpu_avg),
               (''cpu_max'', PyFloat cpu_max),
               (''cpu_min'', PyFloat cpu_min),
               (''memory_avg_mb'', PyFloat memory_avg),
               (''memory_max_mb'', PyFloat memory_max),
               (''memory_min_mb'', PyFloat memory_min)])))))))"

text \<open>
  \<open>AccurateResourceBenchmark.monitor_system_resources\<close>, its \<open>return\<close> statement
  (accurate\_resource\_benchmark.py, lines 254 to 261): no guard, \<open>sum / len\<close>.
\<close>

definition monitor_system_return :: "real list \<Rightarrow> real list \<Rightarrow> py_error + dict" where
  "monitor_system_return cpu_usage memory_usage =
     py_bind (float_div (sum_py cpu_usage) (real (length cpu_usage))) (\<lambda>cpu_avg.
     py_bind (max_py cpu_usage) (\<lambda>cpu_max.
     py_bind (min_py cpu_usage) (\<lambda>cpu_min.
     py_bind (float_div (sum_py memory_usage) (real (length memory_usage))) (\<lambda>memory_avg.
     py_bind (max_py memory_usage) (\<lambda>memory_max.
     py_bind (min_py memory_usage) (\<lambda>memory_min.
       Inr [(''cpu_avg'', PyFloat cpu_avg),
            (''cpu_max'', PyFloat cpu_max),
            (''cpu_min'', PyFloat cpu_min),
            (''memory_avg_gb'', PyFloat memory_avg),
            (''memory_max_gb'', PyFloat memory_max),
            (''memory_min_gb'', PyFloat memory_min)]))))))"

section \<open>Workload rates of the Memgraph side\<close>

text \<open>
  \<open>ResourceBenchmark.benchmark_memgraph_resources\<close> (resource\_benchmark.py, lines 64 to 149)
  once the database driver has answered: the baseline lists are what \<open>monitor_resources(10)\<close>
  collected, \<open>creation_time\<close> and \<open>lookup_time\<close> are the two wall-clock differences. Any
  exception of the body is caught and the function returns \<open>{}\<close>.
\<close>

definition benchmark_memgraph_resources ::
  "real list \<Rightarrow> real list \<Rightarrow> (int \<times> int) list \<Rightarrow> real \<Rightarrow> real \<Rightarrow> dict" where
  "benchmark_memgraph_resources cpu_usage memory_usage disk_io creation_time lookup_time =
     except_empty (
       py_bind (monitor_resources_return cpu_usage memory_usage disk_io) (\<lambda>baseline_resources.
       py_bind (truediv 10000 creation_time) (\<lambda>nodes_per_second.
       py_bind (truediv 1000 lookup_time) (\<lambda>lookups_per_second.
       py_bind (getitem baseline_resources ''cpu_avg'') (\<lambda>cpu_avg.
       py_bind (getitem baseline_resources ''cpu_max'') (\<lambda>cpu_max.
       py_bind (getitem baseline_resources ''memory_avg_gb'') (\<lambda>memory_avg_gb.
       py_bind (getitem baseline_resources ''memory_max_gb'') (\<lambda>memory_max_gb.
       py_bind (getitem baseline_resources ''disk_read_total_mb'') (\<lambda>disk_read.
       py_bind (getitem baseline_resources ''disk_write_total_mb'') (\<lambda>disk_write.
         Inr [(''creation_rate'', PyFloat nodes_per_second),
              (''lookup_rate'', PyFloat lookups_per_second),
              (''creation_time'', PyFloat creation_time),
              (''lookup_time'', PyFloat lookup_time),
              (''cpu_avg'', cpu_avg),
              (''cpu_max'', cpu_max),
              (''memory_avg_gb'', memory_avg_gb),
              (''memory_max_gb'', memory_max_gb),
              (''disk_read_mb'', disk_read),
              (''disk_write_mb'', disk_write),
              (''environment'', PyStr ''Docker Container'')]))))))))))"

text \<open>
  \<open>RealMemgraphBenchmark.benchmark_memgraph\<close>, the rate of its first benchmark
  (real\_memgraph\_benchmark.py, lines 50 to 51): 1000 nodes in \<open>node_creation_time\<close> seconds.
\<close>

definition node_creation_rate :: "real \<Rightarrow> py_error + real" where
  "node_creation_rate node_creation_time = truediv 1000 node_creation_time"

section \<open>Target locator\<close>

text \<open>
  One entry of \<open>psutil.process_iter(['pid', 'name', 'cmdline'])\<close>: the fields of
  \<open>proc.info\<close>. A field the operating system does not give is \<open>None\<close>.
\<close>

record proc_info =
  pid :: int
  name :: "string option"
  cmdline :: "string list option"

text \<open>
  \<open>str.lower\<close> on the ASCII letters, \<open>sub in s\<close> on strings and \<open>sep.join(parts)\<close>.
  Characters are bytes here; letters outside ASCII are left unchanged.
\<close>

definition lower_char :: "char \<Rightarrow> char" where
  "lower_char c =
     (case map_of (zip ''ABCDEFGHIJKLMNOPQRSTUVWXYZ'' ''abcdefghijklmnopqrstuvwxyz'') c of
        None \<Rightarrow> c
      | Some l \<Rightarrow> l)"

definition lower :: "string \<Rightarrow> string" where
  "lower s = map lower_char s"

definition contains :: "string \<Rightarrow> string \<Rightarrow> bool" where
  "contains sub s = sublist sub s"

fun join :: "string \<Rightarrow> string list \<Rightarrow> string" where
  "join sep [] = []"
| "join sep [x] = x"
| "join sep (x # y # ys) = x @ sep @ join sep (y # ys)"

text \<open>
  \<open>AccurateResourceBenchmark.find_memgraph_process\<close> and \<open>find_nendb_process\<close>
  (accurate\_resource\_benchmark.py, lines 20 to 46) on the list the iterator yields.
  An empty name and an empty command line are falsy and skip their test.
\<close>

fun find_memgraph_process :: "proc_info list \<Rightarrow> proc_info option" where
  "find_memgraph_process [] = None"
| "find_memgraph_process (proc # rest) =
     (if (case name proc of None \<Rightarrow> False
          | Some n \<Rightarrow> n \<noteq> [] \<and> contains ''memgraph'' (lower n))
      then Some proc
      else if (case cmdline proc of None \<Rightarrow> False
               | Some args \<Rightarrow> args \<noteq> [] \<and> contains ''memgraph'' (lower (join '' '' args)))
      then Some proc
      else find_memgraph_process rest)"

fun find_nendb_process :: "proc_info list \<Rightarrow> proc_info option" where
  "find_nendb_process [] = None"
| "find_nendb_process (proc # rest) =
     (if (case name proc of None \<Rightarrow> False
          | Some n \<Rightarrow> n \<noteq> [] \<and> contains ''nen'' (lower n))
      then Some proc
      else if (case cmdline proc of None \<Rightarrow> False
               | Some args \<Rightarrow> args \<noteq> [] \<and>
                   (contains ''nendb'' (lower (join '' '' args))
                    \<or> contains ''nen'' (lower (join '' '' args))))
      then Some proc
      else find_nendb_process rest)"

section \<open>Process-scoped sampling\<close>

text \<open>
  What one pass of the loop of \<open>monitor_process_resources\<close> meets
  (accurate\_resource\_benchmark.py, lines 56 to 70): both reads succeed
  (\<open>Sampled cpu_percent rss\<close>), \<open>process.cpu_percent\<close> raises \<open>NoSuchProcess\<close> or
  \<open>AccessDenied\<close> (\<open>CpuGone\<close>), or it returns and \<open>process.memory_info\<close> raises
  (\<open>MemGone cpu_percent\<close>). A run of the loop is given by a trace: for each evaluation of
  the loop condition the value of \<open>time.time() - start_time\<close> read there, and what the pass
  that follows meets. The loop has left when the result is \<open>Some\<close>; \<open>None\<close> says the
  trace ended while the loop was still running.
\<close>

datatype tick = Sampled real int | CpuGone | MemGone real

fun sample_process ::
  "int \<Rightarrow> (real \<times> tick) list \<Rightarrow> real list \<Rightarrow> real list \<Rightarrow> (real list \<times> real list) option" where
  "sample_process duration [] cpu_usage memory_usage = None"
| "sample_process duration ((elapsed, t) # rest) cpu_usage memory_usage =
     (if \<not> elapsed < real_of_int duration then Some (cpu_usage, memory_usage)
      else case t of
          CpuGone \<Rightarrow> Some (cpu_usage, memory_usage)
        | MemGone cpu_percent \<Rightarrow> Some (cpu_usage @ [cpu_percent], memory_usage)
        | Sampled cpu_percent rss \<Rightarrow>
            sample_process duration rest
              (cpu_usage @ [cpu_percent])
              (memory_usage @ [real_of_int rss / (1024 * 1024)]))"

definition monitor_process_resources ::
  "int \<Rightarrow> (real \<times> tick) list \<Rightarrow> (py_error + dict) option" where
  "monitor_process_resources duration trace =
     (case sample_process duration trace [] [] of
        None \<Rightarrow> None
      | Some (cpu_usage, memory_usage) \<Rightarrow> Some (monitor_process_return cpu_usage memory_usage))"

text \<open>
  \<open>AccurateResourceBenchmark.benchmark_memgraph_accurate\<close>
  (accurate\_resource\_benchmark.py, lines 84 to 167) once the database driver has answered:
  \<open>procs\<close> is the process list, the two lists are what the baseline call
  \<open>monitor_process_resources(memgraph_proc, 10)\<close> collected, \<open>creation_time\<close> is the
  wall-clock difference around the 10000 inserts.
\<close>

definition benchmark_memgraph_accurate ::
  "proc_info list \<Rightarrow> real list \<Rightarrow> real list \<Rightarrow> real \<Rightarrow> dict" where
  "benchmark_memgraph_accurate procs cpu_usage memory_usage creation_time =
     except_empty (
       case find_memgraph_process procs of
         None \<Rightarrow> Inr []
       | Some memgraph_proc \<Rightarrow>
           py_bind (monitor_process_return cpu_usage memory_usage) (\<lambda>baseline_resources.
           if baseline_resources = [] then Inr []
           else
             py_bind (truediv 10000 creation_time) (\<lambda>nodes_per_second.
             py_bind (getitem baseline_resources ''cpu_avg'') (\<lambda>cpu_avg.
             py_bind (getitem baseline_resources ''cpu_max'') (\<lambda>cpu_max.
             py_bind (getitem baseline_resources ''memory_avg_mb'') (\<lambda>memory_avg_mb.
             py_bind (getitem baseline_resources ''memory_max_mb'') (\<lambda>memory_max_mb.
               Inr [(''creation_rate'', PyFloat nodes_per_second),
                    (''creation_time'', PyFloat creation_time),
                    (''cpu_avg'', cpu_avg),
                    (''cpu_max'', cpu_max),
                    (''memory_avg_mb'', memory_avg_mb),
                    (''memory_max_mb'', memory_max_mb),
                    (''environment'', PyStr ''Docker Container''),
                    (''process_id'', PyInt (pid memgraph_proc))])))))))"

section \<open>Parsing the output of the NenDB workload\<close>

text \<open>
  \<open>s.split(sep)\<close> for a non-empty separator: the pieces between the occurrences of
  \<open>sep\<close>, found from left to right without overlap. \<open>s.strip()\<close> removes the ASCII white
  space at both ends.
\<close>

fun py_split_aux :: "string \<Rightarrow> string \<Rightarrow> string \<Rightarrow> string list" where
  "py_split_aux sep acc [] = [rev acc]"
| "py_split_aux sep acc (c # cs) =
     (if sep \<noteq> [] \<and> prefix sep (c # cs)
      then rev acc # py_split_aux sep [] (drop (length sep) (c # cs))
      else py_split_aux sep (c # acc) cs)"

definition py_split :: "string \<Rightarrow> string \<Rightarrow> string list" where
  "py_split sep s = py_split_aux sep [] s"

definition is_space :: "char \<Rightarrow> bool" where
  "is_space c = (c \<in> set [CHR '' '', CHR 0x09, CHR 0x0A, CHR 0x0B, CHR 0x0C, CHR 0x0D,
                          CHR 0x1C, CHR 0x1D, CHR 0x1E, CHR 0x1F])"

definition strip :: "string \<Rightarrow> string" where
  "strip s = rev (dropWhile is_space (rev (dropWhile is_space s)))"

text \<open>
  The builtin \<open>float\<close> is a parameter \<open>to_float\<close> of the parsers: \<open>None\<close> stands for its
  \<open>ValueError\<close>. \<open>float_decimal\<close> is \<open>float\<close> on plain unsigned decimal numerals such as
  \<open>0.003328\<close>, the double nearest to the numeral; it is used to run the parsers on
  concrete outputs.
\<close>

definition digit_of :: "char \<Rightarrow> nat option" where
  "digit_of c = map_of (zip ''0123456789'' [0, 1, 2, 3, 4, 5, 6, 7, 8, 9]) c"

fun digits_val :: "nat \<Rightarrow> string \<Rightarrow> nat option" where
  "digits_val acc [] = Some acc"
| "digits_val acc (c # cs) =
     (case digit_of c of None \<Rightarrow> None | Some d \<Rightarrow> digits_val (10 * acc + d) cs)"

definition float_decimal :: "string \<Rightarrow> real option" where
  "float_decimal s =
     (case py_split ''.'' s of
        [ip] \<Rightarrow>
          if ip = [] then None
          else map_option (\<lambda>i. round_double (real i)) (digits_val 0 ip)
      | [ip, fp] \<Rightarrow>
          if ip = [] \<and> fp = [] then None
          else (case (digits_val 0 ip, digits_val 0 fp) of
                  (Some i, Some f) \<Rightarrow>
                    Some (round_double (real i + real f / 10 ^ length fp))
                | _ \<Rightarrow> None)
      | _ \<Rightarrow> None)"

text \<open>
  The expression \<open>float(line.split("Average:")[1].split("ms")[0].strip())\<close> and the two
  tests that select a line, as in resource\_benchmark.py (lines 182 to 186),
  accurate\_resource\_benchmark.py (lines 186 to 190) and fair\_benchmark.py (lines 129 to
  133), which hold the same text.
\<close>

definition extract_average :: "(string \<Rightarrow> real option) \<Rightarrow> string \<Rightarrow> py_error + real" where
  "extract_average to_float line =
     (case py_split ''Average:'' line of
        before # after # others \<Rightarrow>
          (case py_split ''ms'' after of
             [] \<Rightarrow> Inl IndexError
           | number # others' \<Rightarrow>
               (case to_float (strip number) of
                  None \<Rightarrow> Inl ValueError
                | Some t \<Rightarrow> Inr t))
      | _ \<Rightarrow> Inl IndexError)"

definition is_insert_line :: "string \<Rightarrow> bool" where
  "is_insert_line line = (contains ''Average:'' line \<and> contains ''ms per insert'' line)"

definition is_lookup_line :: "string \<Rightarrow> bool" where
  "is_lookup_line line = (contains ''Average:'' line \<and> contains ''ms per lookup'' line)"

fun parse_times ::
  "(string \<Rightarrow> real option) \<Rightarrow> string list \<Rightarrow> real option \<Rightarrow> real option
     \<Rightarrow> py_error + (real option \<times> real option)" where
  "parse_times to_float [] insert_time lookup_time = Inr (insert_time, lookup_time)"
| "parse_times to_float (line # lines) insert_time lookup_time =
     (if is_insert_line line then
        (case extract_average to_float line of
           Inl e \<Rightarrow> Inl e
         | Inr t \<Rightarrow> parse_times to_float lines (Some t) lookup_time)
      else if is_lookup_line line then
        (case extract_average to_float line of
           Inl e \<Rightarrow> Inl e
         | Inr t \<Rightarrow> parse_times to_float lines insert_time (Some t))
      else parse_times to_float lines insert_time lookup_time)"

definition parse_output ::
  "(string \<Rightarrow> real option) \<Rightarrow> string \<Rightarrow> py_error + (real option \<times> real option)" where
  "parse_output to_float output = parse_times to_float (py_split [CHR 0x0A] output) None None"

text \<open>
  \<open>ResourceBenchmark.benchmark_nendb_resources\<close> (resource\_benchmark.py, lines 151 to 221)
  for a workload subprocess that exited with status 0 and wrote \<open>output\<close>; the three lists
  are what the baseline call \<open>monitor_resources(10)\<close> collected. \<open>nendb_resources_tail\<close> is
  the part from \<open># Calculate rates\<close> to the \<open>return\<close>: there \<open>insert_time\<close> is a float and
  \<open>lookup_time\<close> may still be \<open>None\<close>, on which \<open>1000 / lookup_time\<close> raises \<open>TypeError\<close>.
  The literals \<open>0.003328\<close> and \<open>0.003130\<close> of the fallback are the doubles nearest to
  them.
\<close>

definition nendb_resources_tail :: "dict \<Rightarrow> real \<Rightarrow> real option \<Rightarrow> py_error + dict" where
  "nendb_resources_tail baseline_resources insert_time lookup_time =
     py_bind (float_div 1000 insert_time) (\<lambda>insert_rate.
     case lookup_time of
       None \<Rightarrow> Inl TypeError
     | Some lookup_time_ms \<Rightarrow>
         py_bind (float_div 1000 lookup_time_ms) (\<lambda>lookup_rate.
         py_bind (getitem baseline_resources ''cpu_avg'') (\<lambda>cpu_avg.
         py_bind (getitem baseline_resources ''memory_avg_gb'') (\<lambda>memory_avg_gb.
         py_bind (getitem baseline_resources ''cpu_max'') (\<lambda>cpu_max.
         py_bind (getitem baseline_resources ''memory_max_gb'') (\<lambda>memory_max_gb.
         py_bind (getitem baseline_resources ''disk_read_total_mb'') (\<lambda>disk_read.
         py_bind (getitem baseline_resources ''disk_write_total_mb'') (\<lambda>disk_write.
           Inr [(''creation_rate'', PyFloat insert_rate),
                (''lookup_rate'', PyFloat lookup_rate),
                (''insert_time_ms'', PyFloat insert_time),
                (''lookup_time_ms'', PyFloat lookup_time_ms),
                (''cpu_avg'', cpu_avg),
                (''cpu_max'', cpu_max),
                (''memory_avg_gb'', memory_avg_gb),
                (''memory_max_gb'', memory_max_gb),
                (''disk_read_mb'', disk_read),
                (''disk_write_mb'', disk_write),
                (''environment'', PyStr ''Native macOS'')]))))))))"

definition benchmark_nendb_resources ::
  "(string \<Rightarrow> real option) \<Rightarrow> real list \<Rightarrow> real list \<Rightarrow> (int \<times> int) list \<Rightarrow> string \<Rightarrow> dict" where
  "benchmark_nendb_resources to_float cpu_usage memory_usage disk_io output =
     except_empty (
       py_bind (monitor_resources_return cpu_usage memory_usage disk_io) (\<lambda>baseline_resources.
       py_bind (parse_output to_float output) (\<lambda>(insert_time, lookup_time).
         case insert_time of
           None \<Rightarrow>
             nendb_resources_tail baseline_resources (round_double (3328 / 1000000))
               (Some (round_double (3130 / 1000000)))
         | Some t \<Rightarrow> nendb_resources_tail baseline_resources t lookup_time)))"

text \<open>
  \<open>AccurateResourceBenchmark.benchmark_nendb_accurate\<close> (accurate\_resource\_benchmark.py,
  lines 169 to 233): the same parser and fallback; the rates are computed before
  \<open>monitor_system_resources(30)\<close> is called, whose lists are \<open>cpu_usage\<close> and
  \<open>memory_usage\<close>.
\<close>

definition nendb_accurate_tail ::
  "real \<Rightarrow> real option \<Rightarrow> real list \<Rightarrow> real list \<Rightarrow> py_error + dict" where
  "nendb_accurate_tail insert_time lookup_time cpu_usage memory_usage =
     py_bind (float_div 1000 insert_time) (\<lambda>insert_rate.
     case lookup_time of
       None \<Rightarrow> Inl TypeError
     | Some lookup_time_ms \<Rightarrow>
         py_bind (float_div 1000 lookup_time_ms) (\<lambda>lookup_rate.
         py_bind (monitor_system_return cpu_usage memory_usage) (\<lambda>baseline_resources.
         py_bind (getitem baseline_resources ''cpu_avg'') (\<lambda>cpu_avg.
         py_bind (getitem baseline_resources ''memory_avg_gb'') (\<lambda>memory_avg_gb.
         py_bind (getitem baseline_resources ''cpu_max'') (\<lambda>cpu_max.
         py_bind (getitem baseline_resources ''memory_max_gb'') (\<lambda>memory_max_gb.
           Inr [(''creation_rate'', PyFloat insert_rate),
                (''lookup_rate'', PyFloat lookup_rate),
                (''insert_time_ms'', PyFloat insert_time),
                (''lookup_time_ms'', PyFloat lookup_time_ms),
                (''cpu_avg'', cpu_avg),
                (''cpu_max'', cpu_max),
                (''memory_avg_gb'', memory_avg_gb),
                (''memory_max_gb'', memory_max_gb),
                (''environment'', PyStr ''Native macOS''),
                (''note'', PyStr ''System-wide measurement during execution'')])))))))"

definition benchmark_nendb_accurate ::
  "(string \<Rightarrow> real option) \<Rightarrow> string \<Rightarrow> real list \<Rightarrow> real list \<Rightarrow> dict" where
  "benchmark_nendb_accurate to_float output cpu_usage memory_usage =
     except_empty (
       py_bind (parse_output to_float output) (\<lambda>(insert_time, lookup_time).
         case insert_time of
           None \<Rightarrow>
             nendb_accurate_tail (round_double (3328 / 1000000))
               (Some (round_double (3130 / 1000000))) cpu_usage memory_usage
         | Some t \<Rightarrow> nendb_accurate_tail t lookup_time cpu_usage memory_usage))"

text \<open>
  \<open>FairBenchmark.benchmark_nendb_fair\<close> (fair\_benchmark.py, lines 113 to 161) for a
  subprocess that exited with status 0. Its fallback tests both times. Only
  \<open>CalledProcessError\<close> is caught, so an exception of the parser or of a division leaves the
  function.
\<close>

definition nendb_fair_result :: "real \<Rightarrow> real \<Rightarrow> py_error + dict" where
  "nendb_fair_result insert_time lookup_time =
     py_bind (float_div 1000 insert_time) (\<lambda>single_create_rate.
     py_bind (float_div 1000 lookup_time) (\<lambda>single_lookup_rate.
     py_bind (float_div 1000 insert_time) (\<lambda>batch_create_rate.
     py_bind (float_div 1000 lookup_time) (\<lambda>batch_lookup_rate.
       Inr [(''single_create_ms'', PyFloat insert_time),
            (''single_lookup_ms'', PyFloat lookup_time),
            (''batch_create_ms'', PyFloat insert_time),
            (''batch_lookup_ms'', PyFloat lookup_time),
            (''single_create_rate'', PyFloat single_create_rate),
            (''single_lookup_rate'', PyFloat single_lookup_rate),
            (''batch_create_rate'', PyFloat batch_create_rate),
            (''batch_lookup_rate'', PyFloat batch_lookup_rate),
            (''memory_per_node'', PyInt 144),
            (''zero_fragmentation'', PyBool True),
            (''predictable_performance'', PyBool True)]))))"

definition benchmark_nendb_fair :: "(string \<Rightarrow> real option) \<Rightarrow> string \<Rightarrow> py_error + dict" where
  "benchmark_nendb_fair to_float output =
     py_bind (parse_output to_float output) (\<lambda>(insert_time, lookup_time).
       case (insert_time, lookup_time) of
         (Some t, Some u) \<Rightarrow> nendb_fair_result t u
       | _ \<Rightarrow> nendb_fair_result (round_double (4547 / 1000000)) (round_double (2881 / 1000000)))"

section \<open>Comparison reports\<close>

text \<open>
  A float of a report is finite, an infinity or a NaN. \<open>float('inf')\<close> is the one
  non-finite float the scripts create; \<open>1 / x\<close> is \<open>0.0\<close> on an infinity, a NaN on a NaN,
  and on \<open>0.0\<close> it raises.
\<close>

datatype pyfloat = Finite real | Infinity | NegInfinity | NaN

definition float_recip :: "pyfloat \<Rightarrow> py_error + pyfloat" where
  "float_recip x =
     (case x of
        Infinity \<Rightarrow> Inr (Finite 0)
      | NegInfinity \<Rightarrow> Inr (Finite 0)
      | NaN \<Rightarrow> Inr NaN
      | Finite v \<Rightarrow>
          if v = 0 then Inl ZeroDivisionError else Inr (Finite (round_double (1 / v))))"

text \<open>
  \<open>ResourceBenchmark.generate_resource_report\<close>, its CPU and memory efficiency
  (resource\_benchmark.py, lines 265 to 277 and 283 to 295, and the findings of lines 372
  to 375). A printed line is kept as its kind and the number formatted into it:
  \<open>NenDBMoreEfficient x\<close> for \<open>NenDB is {x}x more ... efficient\<close>, \<open>MemgraphMoreEfficient x\<close>
  for \<open>Memgraph is {x}x more ... efficient\<close>.
\<close>

datatype efficiency_line = NenDBMoreEfficient pyfloat | MemgraphMoreEfficient pyfloat

fun printed_ratio :: "efficiency_line \<Rightarrow> pyfloat" where
  "printed_ratio (NenDBMoreEfficient x) = x"
| "printed_ratio (MemgraphMoreEfficient x) = x"

definition cpu_efficiency :: "real \<Rightarrow> real \<Rightarrow> pyfloat" where
  "cpu_efficiency memgraph_cpu nendb_cpu =
     (if nendb_cpu > 0 then Finite (round_double (memgraph_cpu / nendb_cpu)) else Infinity)"

definition memory_efficiency :: "real \<Rightarrow> real \<Rightarrow> pyfloat" where
  "memory_efficiency memgraph_mem nendb_mem =
     (if nendb_mem > 0 then Finite (round_double (memgraph_mem / nendb_mem)) else Infinity)"

definition cpu_efficiency_line :: "real \<Rightarrow> real \<Rightarrow> py_error + efficiency_line" where
  "cpu_efficiency_line nendb_cpu memgraph_cpu =
     (if nendb_cpu < memgraph_cpu
      then Inr (NenDBMoreEfficient (cpu_efficiency memgraph_cpu nendb_cpu))
      else py_bind (float_recip (cpu_efficiency memgraph_cpu nendb_cpu))
             (\<lambda>r. Inr (MemgraphMoreEfficient r)))"

definition memory_efficiency_line :: "real \<Rightarrow> real \<Rightarrow> py_error + efficiency_line" where
  "memory_efficiency_line nendb_mem memgraph_mem =
     (if nendb_mem < memgraph_mem
      then Inr (NenDBMoreEfficient (memory_efficiency memgraph_mem nendb_mem))
      else py_bind (float_recip (memory_efficiency memgraph_mem nendb_mem))
             (\<lambda>r. Inr (MemgraphMoreEfficient r)))"

definition efficiency_findings :: "real \<Rightarrow> real \<Rightarrow> real \<Rightarrow> real \<Rightarrow> (string \<times> pyfloat) list" where
  "efficiency_findings nendb_cpu memgraph_cpu nendb_mem memgraph_mem =
     (if nendb_cpu < memgraph_cpu
      then [(''more CPU efficient'', cpu_efficiency memgraph_cpu nendb_cpu)] else [])
     @ (if nendb_mem < memgraph_mem
        then [(''more memory efficient'', memory_efficiency memgraph_mem nendb_mem)] else [])"

text \<open>
  The score blocks of the three reports: \<open>FairBenchmark.generate_fair_report\<close>
  (fair\_benchmark.py, lines 262 to 270), \<open>CompetitiveBenchmark.generate_report\<close>
  (competitive\_benchmark.py, lines 240 to 250) and
  \<open>ResourceBenchmark.generate_resource_report\<close> (resource\_benchmark.py, lines 342 to 350),
  as functions of the values the report has read before. Each returns the score and
  \<open>max_score\<close>. In the resource report the two "per resource unit" metrics are the
  guarded quotients of lines 302, 303, 314 and 315.
\<close>

definition fair_score ::
  "real \<Rightarrow> real \<Rightarrow> real \<Rightarrow> real \<Rightarrow> real \<Rightarrow> real \<Rightarrow> real \<Rightarrow> real \<Rightarrow> bool \<Rightarrow> bool \<Rightarrow> nat \<times> nat" where
  "fair_score nendb_single_create memgraph_single_create nendb_batch_create
     memgraph_batch_create nendb_tp memgraph_tp nendb_mem memgraph_mem
     zero_fragmentation predictable_performance =
     (let total_score = 0;
          total_score = (if nendb_single_create < memgraph_single_create
                         then total_score + 1 else total_score);
          total_score = (if nendb_batch_create < memgraph_batch_create
                         then total_score + 1 else total_score);
          total_score = (if nendb_tp > memgraph_tp then total_score + 1 else total_score);
          total_score = (if nendb_mem < memgraph_mem then total_score + 1 else total_score);
          total_score = (if zero_fragmentation then total_score + 1 else total_score);
          total_score = (if predictable_performance then total_score + 1 else total_score);
          max_score = 6
      in (total_score, max_score))"

definition competitive_score ::
  "real \<Rightarrow> real \<Rightarrow> real \<Rightarrow> real \<Rightarrow> real \<Rightarrow> real \<Rightarrow> real \<Rightarrow> real \<Rightarrow> real \<Rightarrow> bool \<Rightarrow> bool
     \<Rightarrow> nat \<times> nat" where
  "competitive_score nendb_mem neo4j_mem memgraph_mem nendb_insert neo4j_insert
     memgraph_insert nendb_tp neo4j_tp memgraph_tp
     zero_fragmentation predictable_performance =
     (let total_score = 0;
          total_score = (if nendb_mem < neo4j_mem then total_score + 1 else total_score);
          total_score = (if nendb_mem < memgraph_mem then total_score + 1 else total_score);
          total_score = (if nendb_insert < neo4j_insert then total_score + 1 else total_score);
          total_score = (if nendb_insert < memgraph_insert
                         then total_score + 1 else total_score);
          total_score = (if nendb_tp > neo4j_tp then total_score + 1 else total_score);
          total_score = (if nendb_tp > memgraph_tp then total_score + 1 else total_score);
          total_score = (if zero_fragmentation then total_score + 1 else total_score);
          total_score = (if predictable_performance then total_score + 1 else total_score);
          max_score = 8
      in (total_score, max_score))"

definition per_unit :: "real \<Rightarrow> real \<Rightarrow> real" where
  "per_unit create resource = (if resource > 0 then round_double (create / resource) else 0)"

definition resource_score ::
  "real \<Rightarrow> real \<Rightarrow> real \<Rightarrow> real \<Rightarrow> real \<Rightarrow> real \<Rightarrow> real \<Rightarrow> real \<Rightarrow> real \<Rightarrow> real \<Rightarrow> nat \<times> nat" where
  "resource_score nendb_create memgraph_create nendb_cpu memgraph_cpu nendb_mem memgraph_mem
     nendb_read nendb_write memgraph_read memgraph_write =
     (let nendb_cpu_efficiency = per_unit nendb_create nendb_cpu;
          memgraph_cpu_efficiency = per_unit memgraph_create memgraph_cpu;
          nendb_mem_efficiency = per_unit nendb_create nendb_mem;
          memgraph_mem_efficiency = per_unit memgraph_create memgraph_mem;
          score = 0;
          max_score = 6;
          score = (if nendb_create > memgraph_create then score + 1 else score);
          score = (if nendb_cpu < memgraph_cpu then score + 1 else score);
          score = (if nendb_mem < memgraph_mem then score + 1 else score);
          score = (if nendb_cpu_efficiency > memgraph_cpu_efficiency
                   then score + 1 else score);
          score = (if nendb_mem_efficiency > memgraph_mem_efficiency
                   then score + 1 else score);
          score = (if float_add nendb_read nendb_write < float_add memgraph_read memgraph_write
                   then score + 1 else score)
      in (score, max_score))"

text \<open>
  \<open>AccurateResourceBenchmark.generate_accurate_report\<close> (accurate\_resource\_benchmark.py,
  lines 282 to 326): the lines it prints when no lookup or division raises, each kept as
  its kind and the values formatted into it. \<open>getnum\<close> reads a number a format such as
  \<open>:.1f\<close> accepts. \<open>save_accurate_results\<close> (lines 328 to 340) builds the document it
  writes; the time stamp is an input.
\<close>

definition getnum :: "dict \<Rightarrow> string \<Rightarrow> py_error + real" where
  "getnum d k =
     py_bind (getitem d k)
       (\<lambda>v. case v of
               PyFloat x \<Rightarrow> Inr x
             | PyInt i \<Rightarrow> Inr (real_of_int i)
             | _ \<Rightarrow> Inl TypeError)"

datatype accurate_line =
    PerformanceLine real real real
  | CpuLine real string real string
  | MemoryLine real string real string
  | AnalysisRatio real
  | Caveat string
  | Recommendation string

definition generate_accurate_report :: "dict \<Rightarrow> dict \<Rightarrow> py_error + accurate_line list" where
  "generate_accurate_report nendb_results memgraph_results =
     py_bind (getnum nendb_results ''creation_rate'') (\<lambda>nendb_create.
     py_bind (getnum memgraph_results ''creation_rate'') (\<lambda>memgraph_create.
     py_bind (float_div nendb_create memgraph_create) (\<lambda>performance_ratio.
     py_bind (getnum nendb_results ''cpu_avg'') (\<lambda>nendb_cpu.
     py_bind (getnum memgraph_results ''cpu_avg'') (\<lambda>memgraph_cpu.
     py_bind
       (if map_of memgraph_results ''memory_avg_mb'' \<noteq> None
        then
          py_bind (getnum memgraph_results ''memory_avg_mb'') (\<lambda>memgraph_mem.
          py_bind (getnum nendb_results ''memory_avg_gb'') (\<lambda>nendb_mem.
            Inr (MemoryLine nendb_mem ''GB (system)'' memgraph_mem ''MB (process)'')))
        else
          py_bind (getnum nendb_results ''memory_avg_gb'') (\<lambda>nendb_mem.
          py_bind (getnum memgraph_results ''memory_avg_gb'') (\<lambda>memgraph_mem.
            Inr (MemoryLine nendb_mem ''GB (system)'' memgraph_mem ''GB (system)''))))
       (\<lambda>memory_line.
         Inr [PerformanceLine nendb_create memgraph_create performance_ratio,
              CpuLine nendb_cpu ''% (system)'' memgraph_cpu ''% (process)'',
              memory_line,
              AnalysisRatio performance_ratio,
              Caveat ''Resource measurement methods differ'',
              Caveat ''Process-specific vs system-wide measurements'',
              Caveat ''Results may not be directly comparable'',
              Recommendation ''Process-specific measurements are more accurate'',
              Recommendation ''System-wide measurements include other processes'',
              Recommendation
                ''Performance differences are more reliable than resource differences'',
              Recommendation
                ''Focus on architectural advantages, not just resource usage'']))))))"

record accurate_results_file =
  file_memgraph :: dict
  file_nendb :: dict
  file_timestamp :: string
  file_benchmark_type :: string
  file_note :: string

definition save_accurate_results :: "dict \<Rightarrow> dict \<Rightarrow> string \<Rightarrow> accurate_results_file" where
  "save_accurate_results memgraph_results nendb_results now =
     \<lparr>file_memgraph = memgraph_results,
      file_nendb = nendb_results,
      file_timestamp = now,
      file_benchmark_type = ''Accurate process-specific resource measurement'',
      file_note = ''Different measurement methods for different environments''\<rparr>"

section \<open>Properties stated in the words of the specification\<close>

text \<open>
  The locator's match in the words of the specification: the short name, or any token of
  the command line, contains the hint case-insensitively. A text contains a hint
  case-insensitively when one of its contiguous pieces agrees with the hint letter by
  letter, where an ASCII letter agrees with itself in either case.
\<close>

definition same_letter :: "char \<Rightarrow> char \<Rightarrow> bool" where
  "same_letter a b =
     (a = b
      \<or> (a, b) \<in> set (zip ''ABCDEFGHIJKLMNOPQRSTUVWXYZ'' ''abcdefghijklmnopqrstuvwxyz'')
      \<or> (b, a) \<in> set (zip ''ABCDEFGHIJKLMNOPQRSTUVWXYZ'' ''abcdefghijklmnopqrstuvwxyz''))"

definition occurs_ignoring_case :: "string \<Rightarrow> string \<Rightarrow> bool" where
  "occurs_ignoring_case hint text =
     (\<exists>piece \<in> set (sublists text). list_all2 same_letter hint piece)"

definition matches_hint :: "string \<Rightarrow> proc_info \<Rightarrow> bool" where
  "matches_hint name_hint proc =
     ((case name proc of None \<Rightarrow> False
       | Some short_name \<Rightarrow> occurs_ignoring_case name_hint short_name)
      \<or> (case cmdline proc of None \<Rightarrow> False
          | Some tokens \<Rightarrow> \<exists>token \<in> set tokens. occurs_ignoring_case name_hint token))"

text \<open>The number of conditions that hold, for the composite scores.\<close>

definition count_true :: "bool list \<Rightarrow> nat" where
  "count_true conditions = length (filter (\<lambda>c. c) conditions)"

text \<open>
  The trace of a run in which \<open>oks\<close> are the passes that read both values (each with
  the elapsed time at its loop test), then one pass at \<open>elapsed\<close> meets the vanished
  process, and \<open>rest\<close> is what would have followed.
\<close>

definition vanishing_trace ::
  "(real \<times> real \<times> int) list \<Rightarrow> real \<Rightarrow> tick \<Rightarrow> (real \<times> tick) list \<Rightarrow> (real \<times> tick) list" where
  "vanishing_trace oks elapsed gone rest =
     map (\<lambda>(e, cpu_percent, rss). (e, Sampled cpu_percent rss)) oks @ (elapsed, gone) # rest"

definition is_gone :: "tick \<Rightarrow> bool" where
  "is_gone t = (case t of Sampled cpu_percent rss \<Rightarrow> False | _ \<Rightarrow> True)"

definition extra_cpu :: "tick \<Rightarrow> real list" where
  "extra_cpu t = (case t of MemGone cpu_percent \<Rightarrow> [cpu_percent] | _ \<Rightarrow> [])"

definition in_budget :: "int \<Rightarrow> (real \<times> real \<times> int) list \<Rightarrow> bool" where
  "in_budget duration oks = list_all (\<lambda>(e, cpu_percent, rss). e < real_of_int duration) oks"

text \<open>
  The dictionaries the NenDB benchmarks return when the fallback constants stand in for the
  parsed times: \<open>0.003328\<close> and \<open>0.003130\<close> milliseconds and their rates
  \<open>300480.76923076925\<close> and \<open>319488.8178913738\<close> in the resource benchmark, \<open>0.004547\<close> and
  \<open>0.002881\<close> with \<open>219925.22542335608\<close> and \<open>347101.7007983339\<close> in the fair benchmark,
  each written as the double it is. Their keys are those of a measured result.
\<close>

definition resources_fallback_result :: "real list \<Rightarrow> real list \<Rightarrow> (int \<times> int) list \<Rightarrow> dict" where
  "resources_fallback_result cpu_usage memory_usage disk_io =
     [(''creation_rate'', PyFloat (1290555076923077 / 2 ^ 32)),
      (''lookup_rate'', PyFloat (5488776097124601 / 2 ^ 34)),
      (''insert_time_ms'', PyFloat (7673845534663173 / 2 ^ 61)),
      (''lookup_time_ms'', PyFloat (3608644309419431 / 2 ^ 60)),
      (''cpu_avg'', PyFloat (round_double (sum_list cpu_usage / real (length cpu_usage)))),
      (''cpu_max'', PyFloat (Max (set cpu_usage))),
      (''memory_avg_gb'',
         PyFloat (round_double (sum_list memory_usage / real (length memory_usage)))),
      (''memory_max_gb'', PyFloat (Max (set memory_usage))),
      (''disk_read_mb'', PyFloat (real_of_int (sum_list (map fst disk_io)) / (1024 * 1024))),
      (''disk_write_mb'', PyFloat (real_of_int (sum_list (map snd disk_io)) / (1024 * 1024))),
      (''environment'', PyStr ''Native macOS'')]"

definition fair_fallback_result :: dict where
  "fair_fallback_result =
     [(''single_create_ms'', PyFloat (5242334081447333 / 2 ^ 60)),
      (''single_lookup_ms'', PyFloat (1660783427386163 / 2 ^ 59)),
      (''batch_create_ms'', PyFloat (5242334081447333 / 2 ^ 60)),
      (''batch_lookup_ms'', PyFloat (1660783427386163 / 2 ^ 59)),
      (''single_create_rate'', PyFloat (7556573206069937 / 2 ^ 35)),
      (''single_lookup_rate'', PyFloat (5963161813259285 / 2 ^ 34)),
      (''batch_create_rate'', PyFloat (7556573206069937 / 2 ^ 35)),
      (''batch_lookup_rate'', PyFloat (5963161813259285 / 2 ^ 34)),
      (''memory_per_node'', PyInt 144),
      (''zero_fragmentation'', PyBool True),
      (''predictable_performance'', PyBool True)]"


section \<open>Helper lemmas\<close>

lemma py_bind_Inr [simp]: "py_bind (Inr v) f = f v"
  by (simp add: py_bind_def)

lemma py_bind_Inl [simp]: "py_bind (Inl e) f = Inl e"
  by (simp add: py_bind_def)

lemma find_exp_numeral:
  "find_exp (numeral k) e x =
     (if 2 powi (e + 1) \<le> x then find_exp (pred_numeral k) (e + 1) x
      else if x < 2 powi e then find_exp (pred_numeral k) (e - 1) x
      else e)"
  by (simp add: numeral_eq_Suc)

lemmas round_double_eval =
  round_double_def find_exp_numeral round_half_even_def power_int_minus

lemma max_py_Max: "xs \<noteq> [] \<Longrightarrow> max_py xs = Inr (Max (set xs))"
proof (cases xs)
  case Nil
  assume "xs \<noteq> []"
  with Nil show ?thesis by simp
next
  case (Cons a as)
  have "(\<lambda>x s. if s < x then x else s) = (max :: real \<Rightarrow> real \<Rightarrow> real)"
    by (auto simp: fun_eq_iff max_def)
  then have "max_py (a # as) = Inr (fold max as a)"
    by (simp add: foldl_conv_fold)
  moreover have "fold max as a = Max (set (a # as))"
    by (simp only: Max.set_eq_fold)
  ultimately show ?thesis
    using Cons by (simp only:)
qed

lemma min_py_Min: "xs \<noteq> [] \<Longrightarrow> min_py xs = Inr (Min (set xs))"
proof (cases xs)
  case Nil
  assume "xs \<noteq> []"
  with Nil show ?thesis by simp
next
  case (Cons a as)
  have "(\<lambda>x s. if x < s then x else s) = (min :: real \<Rightarrow> real \<Rightarrow> real)"
    by (auto simp: fun_eq_iff min_def)
  then have "min_py (a # as) = Inr (fold min as a)"
    by (simp add: foldl_conv_fold)
  moreover have "fold min as a = Min (set (a # as))"
    by (simp only: Min.set_eq_fold)
  ultimately show ?thesis
    using Cons by (simp only:)
qed

lemma mean_nonempty:
  "xs \<noteq> [] \<Longrightarrow> mean xs = Inr (round_double (sum_list xs / real (length xs)))"
  by (cases xs) (simp_all add: mean_def)

lemma sum_div_len_nonempty:
  "xs \<noteq> [] \<Longrightarrow>
     float_div (sum_py xs) (real (length xs)) = Inr (round_double (sum_py xs / real (length xs)))"
  by (simp add: float_div_def)

lemma monitor_resources_return_nonempty:
  assumes "cpu_usage \<noteq> []" and "memory_usage \<noteq> []"
  shows "monitor_resources_return cpu_usage memory_usage disk_io =
     Inr [(''cpu_avg'', PyFloat (round_double (sum_list cpu_usage / real (length cpu_usage)))),
          (''cpu_max'', PyFloat (Max (set cpu_usage))),
          (''cpu_min'', PyFloat (Min (set cpu_usage))),
          (''memory_avg_gb'',
             PyFloat (round_double (sum_list memory_usage / real (length memory_usage)))),
          (''memory_max_gb'', PyFloat (Max (set memory_usage))),
          (''memory_min_gb'', PyFloat (Min (set memory_usage))),
          (''disk_read_total_mb'',
             PyFloat (real_of_int (sum_list (map fst disk_io)) / (1024 * 1024))),
          (''disk_write_total_mb'',
             PyFloat (real_of_int (sum_list (map snd disk_io)) / (1024 * 1024)))]"
  unfolding monitor_resources_return_def
  by (simp add: mean_nonempty max_py_Max min_py_Min assms)

lemma monitor_process_return_nonempty:
  assumes "cpu_usage \<noteq> []" and "memory_usage \<noteq> []"
  shows "monitor_process_return cpu_usage memory_usage =
     Inr [(''cpu_avg'', PyFloat (round_double (sum_py cpu_usage / real (length cpu_usage)))),
          (''cpu_max'', PyFloat (Max (set cpu_usage))),
          (''cpu_min'', PyFloat (Min (set cpu_usage))),
          (''memory_avg_mb'',
             PyFloat (round_double (sum_py memory_usage / real (length memory_usage)))),
          (''memory_max_mb'', PyFloat (Max (set memory_usage))),
          (''memory_min_mb'', PyFloat (Min (set memory_usage)))]"
  unfolding monitor_process_return_def
  by (simp add: sum_div_len_nonempty max_py_Max min_py_Min assms)

lemma same_letter_lower_char: "same_letter (lower_char c) c"
proof (cases "map_of (zip ''ABCDEFGHIJKLMNOPQRSTUVWXYZ'' ''abcdefghijklmnopqrstuvwxyz'') c")
  case None
  then show ?thesis
    unfolding same_letter_def lower_char_def by (simp only: option.case) simp
next
  case (Some l)
  from map_of_SomeD [OF Some] Some show ?thesis
    unfolding same_letter_def lower_char_def by (simp only: option.case) blast
qed

lemma lower_char_of_same_letter:
  assumes "h \<in> set ''abcdefghijklmnopqrstuvwxyz''" and "same_letter h c"
  shows "lower_char c = h"
proof -
  let ?U = "''ABCDEFGHIJKLMNOPQRSTUVWXYZ''" and ?L = "''abcdefghijklmnopqrstuvwxyz''"
  have hU: "h \<notin> set ?U" using assms(1) by auto
  have d: "distinct (map fst (zip ?U ?L))" by simp
  from assms(2) consider "h = c" | "(h, c) \<in> set (zip ?U ?L)" | "(c, h) \<in> set (zip ?U ?L)"
    unfolding same_letter_def by blast
  then show ?thesis
  proof cases
    case 1
    have "map_of (zip ?U ?L) h = None"
      using hU by (simp only: map_of_eq_None_iff) (auto dest: set_zip_leftD)
    with 1 show ?thesis unfolding lower_char_def by (simp only: option.case)
  next
    case 2
    then have "h \<in> set ?U" by (rule set_zip_leftD)
    with hU show ?thesis by contradiction
  next
    case 3
    have "map_of (zip ?U ?L) c = Some h"
      using d 3 by (rule map_of_is_SomeI)
    then show ?thesis unfolding lower_char_def by (simp only: option.case)
  qed
qed

lemma lower_eq_iff_same_letters:
  assumes "set hint \<subseteq> set ''abcdefghijklmnopqrstuvwxyz''"
  shows "lower piece = hint \<longleftrightarrow> list_all2 same_letter hint piece"
proof
  assume "lower piece = hint"
  then have "hint = map lower_char piece" by (simp add: lower_def)
  then show "list_all2 same_letter hint piece"
    by (simp only: list_all2_map1 list_all2_same) (simp add: same_letter_lower_char)
next
  assume "list_all2 same_letter hint piece"
  then show "lower piece = hint"
    using assms
  proof (induction hint piece rule: list_all2_induct)
    case Nil
    show ?case by (simp add: lower_def)
  next
    case (Cons h hs c cs)
    from Cons.prems have h: "h \<in> set ''abcdefghijklmnopqrstuvwxyz''"
      and hs: "set hs \<subseteq> set ''abcdefghijklmnopqrstuvwxyz''"
      by (simp_all only: list.set insert_subset)
    from lower_char_of_same_letter [OF h Cons.hyps(1)] Cons.IH [OF hs]
    show ?case by (simp add: lower_def)
  qed
qed

lemma contains_lower_iff_occurs:
  assumes "set hint \<subseteq> set ''abcdefghijklmnopqrstuvwxyz''"
  shows "contains hint (lower text) \<longleftrightarrow> occurs_ignoring_case hint text"
proof
  assume "contains hint (lower text)"
  then have "sublist hint (map lower_char text)" by (simp add: contains_def lower_def)
  then obtain piece where p: "sublist piece text" "hint = map lower_char piece"
    by (auto dest: sublist_map_rightE)
  from p(2) have "lower piece = hint" by (simp add: lower_def)
  with lower_eq_iff_same_letters [OF assms] have "list_all2 same_letter hint piece" by blast
  with p(1) show "occurs_ignoring_case hint text"
    unfolding occurs_ignoring_case_def by (auto simp only: in_set_sublists)
next
  assume "occurs_ignoring_case hint text"
  then obtain piece where p: "sublist piece text" "list_all2 same_letter hint piece"
    unfolding occurs_ignoring_case_def by (auto simp only: in_set_sublists)
  from p(2) lower_eq_iff_same_letters [OF assms] have l: "lower piece = hint" by blast
  from p(1) obtain ps ss where "text = ps @ piece @ ss" by (auto simp: sublist_def)
  then have "lower text = lower ps @ hint @ lower ss" using l by (simp add: lower_def)
  then show "contains hint (lower text)" by (simp add: contains_def)
qed

lemma sublist_across_separator:
  assumes "s \<notin> set h" and "h \<noteq> []"
  shows "sublist h (x @ s # y) \<longleftrightarrow> sublist h x \<or> sublist h y"
proof
  assume "sublist h (x @ s # y)"
  then consider "sublist h x" | "sublist h (s # y)"
    | h1 h2 where "h = h1 @ h2" "suffix h1 x" "prefix h2 (s # y)"
    by (auto simp: sublist_append)
  then show "sublist h x \<or> sublist h y"
  proof cases
    case 1
    then show ?thesis by simp
  next
    case 2
    then have "prefix h (s # y) \<or> sublist h y" by (simp add: sublist_Cons_right)
    moreover have "\<not> prefix h (s # y)"
      using assms by (cases h) (auto simp: prefix_Cons)
    ultimately show ?thesis by simp
  next
    case 3
    show ?thesis
    proof (cases h2)
      case Nil
      with 3 have "suffix h x" by simp
      then show ?thesis by (auto dest: suffix_imp_sublist)
    next
      case (Cons a as)
      with 3(3) have "a = s" by (simp add: prefix_Cons)
      with Cons 3(1) assms(1) show ?thesis by simp
    qed
  qed
next
  assume "sublist h x \<or> sublist h y"
  then show "sublist h (x @ s # y)"
  proof
    assume "sublist h x"
    then obtain ps ss where "x = ps @ h @ ss" by (auto simp: sublist_def)
    then have "x @ s # y = ps @ h @ (ss @ s # y)" by simp
    then show ?thesis unfolding sublist_def by blast
  next
    assume "sublist h y"
    then obtain ps ss where "y = ps @ h @ ss" by (auto simp: sublist_def)
    then have "x @ s # y = (x @ s # ps) @ h @ ss" by simp
    then show ?thesis unfolding sublist_def by blast
  qed
qed

lemma sublist_join_blank:
  assumes "CHR '' '' \<notin> set h" and "h \<noteq> []"
  shows "sublist h (join '' '' tokens) \<longleftrightarrow> (\<exists>token \<in> set tokens. sublist h token)"
proof (induction "'' ''" tokens rule: join.induct)
  case 1
  show ?case using assms(2) by simp
next
  case (2 x)
  show ?case by simp
next
  case (3 x y ys)
  have "sublist h (join '' '' (x # y # ys))
          \<longleftrightarrow> sublist h x \<or> sublist h (join '' '' (y # ys))"
    using sublist_across_separator [OF assms, of x "join '' '' (y # ys)"] by simp
  with 3 show ?case by simp
qed

lemma lower_join_blank: "lower (join '' '' tokens) = join '' '' (map lower tokens)"
proof (induction "'' ''" tokens rule: join.induct)
  case 1
  show ?case by (simp add: lower_def)
next
  case (2 x)
  show ?case by simp
next
  case (3 x y ys)
  have b: "lower_char CHR '' '' = CHR '' ''" by (simp add: lower_char_def)
  from 3 show ?case by (simp add: lower_def b)
qed

lemma contains_lower_join_iff:
  assumes "CHR '' '' \<notin> set h" and "h \<noteq> []"
  shows "contains h (lower (join '' '' tokens))
           \<longleftrightarrow> (\<exists>token \<in> set tokens. contains h (lower token))"
  unfolding contains_def lower_join_blank
  using sublist_join_blank [OF assms, of "map lower tokens"] by simp

lemma contains_nendb_nen: "contains ''nendb'' s \<Longrightarrow> contains ''nen'' s"
proof -
  have "sublist ''nen'' ''nendb''" by (simp add: sublist_code prefix_code)
  then show "contains ''nendb'' s \<Longrightarrow> contains ''nen'' s"
    unfolding contains_def by (rule sublist_order.order_trans)
qed

lemma contains_nonempty: "sub \<noteq> [] \<Longrightarrow> contains sub s \<Longrightarrow> s \<noteq> []"
  by (auto simp: contains_def)

lemma matches_memgraph:
  "matches_hint ''memgraph'' proc \<longleftrightarrow>
     (case name proc of None \<Rightarrow> False
      | Some n \<Rightarrow> n \<noteq> [] \<and> contains ''memgraph'' (lower n))
     \<or> (case cmdline proc of None \<Rightarrow> False
         | Some args \<Rightarrow> args \<noteq> [] \<and> contains ''memgraph'' (lower (join '' '' args)))"
proof -
  have l: "set ''memgraph'' \<subseteq> set ''abcdefghijklmnopqrstuvwxyz''" by simp
  have b: "CHR '' '' \<notin> set ''memgraph''" "''memgraph'' \<noteq> []" by simp_all
  have a: "contains ''memgraph'' (lower n) \<Longrightarrow> n \<noteq> []" for n
    using contains_nonempty [of "''memgraph''" "lower n"] by (auto simp: lower_def)
  have c: "(\<exists>token \<in> set args. occurs_ignoring_case ''memgraph'' token)
             \<longleftrightarrow> args \<noteq> [] \<and> contains ''memgraph'' (lower (join '' '' args))" for args
  proof -
    have "(\<exists>token \<in> set args. occurs_ignoring_case ''memgraph'' token)
            \<longleftrightarrow> (\<exists>token \<in> set args. contains ''memgraph'' (lower token))"
      by (simp only: contains_lower_iff_occurs [OF l])
    also have "\<dots> \<longleftrightarrow> contains ''memgraph'' (lower (join '' '' args))"
      by (simp only: contains_lower_join_iff [OF b])
    also have "\<dots> \<longleftrightarrow> args \<noteq> [] \<and> contains ''memgraph'' (lower (join '' '' args))"
      by (cases args) (simp_all add: contains_def lower_def)
    finally show ?thesis .
  qed
  show ?thesis
    unfolding matches_hint_def c contains_lower_iff_occurs [OF l, symmetric]
    using a by (auto split: option.splits)
qed

lemma matches_nen:
  "matches_hint ''nen'' proc \<longleftrightarrow>
     (case name proc of None \<Rightarrow> False
      | Some n \<Rightarrow> n \<noteq> [] \<and> contains ''nen'' (lower n))
     \<or> (case cmdline proc of None \<Rightarrow> False
         | Some args \<Rightarrow> args \<noteq> [] \<and>
             (contains ''nendb'' (lower (join '' '' args))
              \<or> contains ''nen'' (lower (join '' '' args))))"
proof -
  have l: "set ''nen'' \<subseteq> set ''abcdefghijklmnopqrstuvwxyz''" by simp
  have b: "CHR '' '' \<notin> set ''nen''" "''nen'' \<noteq> []" by simp_all
  have a: "contains ''nen'' (lower n) \<Longrightarrow> n \<noteq> []" for n
    using contains_nonempty [of "''nen''" "lower n"] by (auto simp: lower_def)
  have c: "(\<exists>token \<in> set args. occurs_ignoring_case ''nen'' token)
             \<longleftrightarrow> args \<noteq> [] \<and> contains ''nen'' (lower (join '' '' args))" for args
  proof -
    have "(\<exists>token \<in> set args. occurs_ignoring_case ''nen'' token)
            \<longleftrightarrow> (\<exists>token \<in> set args. contains ''nen'' (lower token))"
      by (simp only: contains_lower_iff_occurs [OF l])
    also have "\<dots> \<longleftrightarrow> contains ''nen'' (lower (join '' '' args))"
      by (simp only: contains_lower_join_iff [OF b])
    also have "\<dots> \<longleftrightarrow> args \<noteq> [] \<and> contains ''nen'' (lower (join '' '' args))"
      by (cases args) (simp_all add: contains_def lower_def)
    finally show ?thesis .
  qed
  show ?thesis
    unfolding matches_hint_def c contains_lower_iff_occurs [OF l, symmetric]
    using a contains_nendb_nen by (auto split: option.splits)
qed

lemma find_memgraph_process_find:
  "find_memgraph_process procs = List.find (matches_hint ''memgraph'') procs"
proof (induction procs)
  case Nil
  show ?case by simp
next
  case (Cons proc rest)
  show ?case
    using Cons.IH matches_memgraph [of proc]
    by (simp only: find_memgraph_process.simps find.simps) auto
qed

lemma find_nendb_process_find:
  "find_nendb_process procs = List.find (matches_hint ''nen'') procs"
proof (induction procs)
  case Nil
  show ?case by simp
next
  case (Cons proc rest)
  show ?case
    using Cons.IH matches_nen [of proc]
    by (simp only: find_nendb_process.simps find.simps) auto
qed

lemma sample_process_vanishing:
  assumes "in_budget duration oks" and "elapsed < real_of_int duration" and "is_gone gone"
  shows "sample_process duration (vanishing_trace oks elapsed gone rest) cpu_usage memory_usage
       = Some (cpu_usage @ map (\<lambda>(e, cpu_percent, rss). cpu_percent) oks @ extra_cpu gone,
               memory_usage @ map (\<lambda>(e, cpu_percent, rss). real_of_int rss / (1024 * 1024)) oks)"
  using assms(1)
proof (induction oks arbitrary: cpu_usage memory_usage)
  case Nil
  show ?case
    using assms(2,3)
    by (cases gone) (simp_all add: vanishing_trace_def is_gone_def extra_cpu_def)
next
  case (Cons ok oks)
  obtain e c r where ok: "ok = (e, c, r)" by (cases ok) auto
  from Cons.prems ok have e: "e < real_of_int duration" and rest: "in_budget duration oks"
    by (simp_all add: in_budget_def)
  have step: "sample_process duration (vanishing_trace (ok # oks) elapsed gone rest)
                cpu_usage memory_usage
            = sample_process duration (vanishing_trace oks elapsed gone rest)
                (cpu_usage @ [c]) (memory_usage @ [real_of_int r / (1024 * 1024)])"
    using e ok by (simp add: vanishing_trace_def)
  show ?case
    unfolding step Cons.IH [OF rest] using ok by simp
qed

lemma py_split_aux_sublist:
  "line \<in> set (py_split_aux sep acc s) \<Longrightarrow> sublist line (rev acc @ s)"
proof (induction sep acc s rule: py_split_aux.induct)
  case (1 sep acc)
  then show ?case by simp
next
  case (2 sep acc c cs)
  show ?case
  proof (cases "sep \<noteq> [] \<and> prefix sep (c # cs)")
    case True
    with "2.prems" consider "line = rev acc"
      | "line \<in> set (py_split_aux sep [] (drop (length sep) (c # cs)))"
      by auto
    then show ?thesis
    proof cases
      case 1
      then show ?thesis by simp
    next
      case 2
      with "2.IH"(1) True have "sublist line (drop (length sep) (c # cs))" by simp
      then have "sublist line (c # cs)"
        using sublist_drop sublist_order.order_trans by blast
      then obtain ps ss where "c # cs = ps @ line @ ss" by (auto simp: sublist_def)
      then have "rev acc @ c # cs = (rev acc @ ps) @ line @ ss" by simp
      then show ?thesis unfolding sublist_def by blast
    qed
  next
    case False
    with "2.prems" have "line \<in> set (py_split_aux sep (c # acc) cs)" by auto
    with "2.IH"(2) False have "sublist line (rev (c # acc) @ cs)" by blast
    then show ?thesis by simp
  qed
qed

lemma py_split_sublist: "line \<in> set (py_split sep s) \<Longrightarrow> sublist line s"
  using py_split_aux_sublist [of line sep "[]" s] by (simp add: py_split_def)

lemma no_marker_in_lines:
  assumes "\<not> sublist marker output" and "line \<in> set (py_split sep output)"
  shows "\<not> contains marker line"
proof
  assume "contains marker line"
  then have "sublist marker line" by (simp add: contains_def)
  with py_split_sublist [OF assms(2)] have "sublist marker output"
    using sublist_order.order_trans by blast
  with assms(1) show False by contradiction
qed

lemma parse_times_keeps_insert:
  "parse_times f lines (Some t) lk = Inr (i', l') \<Longrightarrow> i' \<noteq> None"
  by (induction lines arbitrary: t lk) (auto split: if_splits sum.splits)

lemma parse_times_sets_insert:
  assumes "\<exists>line \<in> set lines. is_insert_line line"
    and "parse_times f lines ins lk = Inr (i', l')"
  shows "i' \<noteq> None"
  using assms
proof (induction lines arbitrary: ins lk)
  case Nil
  then show ?case by simp
next
  case (Cons line lines)
  show ?case
  proof (cases "is_insert_line line")
    case True
    with Cons.prems(2) show ?thesis
      by (auto split: sum.splits dest: parse_times_keeps_insert)
  next
    case False
    with Cons.prems(1) have "\<exists>line \<in> set lines. is_insert_line line" by simp
    with Cons.IH Cons.prems(2) False show ?thesis
      by (auto split: if_splits sum.splits)
  qed
qed

lemma parse_times_no_lookup:
  assumes "\<forall>line \<in> set lines. \<not> is_lookup_line line"
    and "parse_times f lines ins lk = Inr (i', l')"
  shows "l' = lk"
  using assms
  by (induction lines arbitrary: ins lk) (auto split: if_splits sum.splits)

lemma parse_times_no_insert:
  assumes "\<forall>line \<in> set lines. \<not> is_insert_line line"
    and "parse_times f lines ins lk = Inr (i', l')"
  shows "i' = ins"
  using assms
  by (induction lines arbitrary: ins lk) (auto split: if_splits sum.splits)

lemma parse_times_no_marker:
  assumes "\<forall>line \<in> set lines. \<not> is_insert_line line"
    and "\<forall>line \<in> set lines. \<not> is_lookup_line line"
  shows "parse_times f lines ins lk = Inr (ins, lk)"
  using assms
  by (induction lines arbitrary: ins lk) auto

lemma nendb_resources_tail_None:
  "nendb_resources_tail baseline t None = Inl (if t = 0 then ZeroDivisionError else TypeError)"
  by (simp add: nendb_resources_tail_def float_div_def)

lemma nendb_accurate_tail_None:
  "nendb_accurate_tail t None cpu_usage memory_usage
     = Inl (if t = 0 then ZeroDivisionError else TypeError)"
  by (simp add: nendb_accurate_tail_def float_div_def)

lemma resources_tail_fallback:
  assumes "cpu_usage \<noteq> []" and "memory_usage \<noteq> []"
    and "monitor_resources_return cpu_usage memory_usage disk_io = Inr baseline"
  shows "nendb_resources_tail baseline (round_double (3328 / 1000000))
           (Some (round_double (3130 / 1000000)))
         = Inr (resources_fallback_result cpu_usage memory_usage disk_io)"
proof -
  have r: "round_double (3328 / 1000000) = 7673845534663173 / 2 ^ 61"
    "round_double (3130 / 1000000) = 3608644309419431 / 2 ^ 60"
    "round_double (1000 / (7673845534663173 / 2 ^ 61)) = 1290555076923077 / 2 ^ 32"
    "round_double (1000 / (3608644309419431 / 2 ^ 60)) = 5488776097124601 / 2 ^ 34"
    by (simp_all add: round_double_eval)
  from assms(3) have b: "baseline =
          [(''cpu_avg'', PyFloat (round_double (sum_list cpu_usage / real (length cpu_usage)))),
          (''cpu_max'', PyFloat (Max (set cpu_usage))),
          (''cpu_min'', PyFloat (Min (set cpu_usage))),
          (''memory_avg_gb'',
             PyFloat (round_double (sum_list memory_usage / real (length memory_usage)))),
          (''memory_max_gb'', PyFloat (Max (set memory_usage))),
          (''memory_min_gb'', PyFloat (Min (set memory_usage))),
          (''disk_read_total_mb'',
             PyFloat (real_of_int (sum_list (map fst disk_io)) / (1024 * 1024))),
          (''disk_write_total_mb'',
             PyFloat (real_of_int (sum_list (map snd disk_io)) / (1024 * 1024)))]"
    by (simp only: monitor_resources_return_nonempty [OF assms(1,2)] sum.inject)
  have g: "getitem baseline ''cpu_avg''
             = Inr (PyFloat (round_double (sum_list cpu_usage / real (length cpu_usage))))"
    "getitem baseline ''cpu_max'' = Inr (PyFloat (Max (set cpu_usage)))"
    "getitem baseline ''memory_avg_gb''
             = Inr (PyFloat (round_double (sum_list memory_usage / real (length memory_usage))))"
    "getitem baseline ''memory_max_gb'' = Inr (PyFloat (Max (set memory_usage)))"
    "getitem baseline ''disk_read_total_mb''
             = Inr (PyFloat (real_of_int (sum_list (map fst disk_io)) / (1024 * 1024)))"
    "getitem baseline ''disk_write_total_mb''
             = Inr (PyFloat (real_of_int (sum_list (map snd disk_io)) / (1024 * 1024)))"
    unfolding b by (simp_all add: getitem_def)
  have d: "float_div 1000 (7673845534663173 / 2 ^ 61) = Inr (1290555076923077 / 2 ^ 32)"
    "float_div 1000 (3608644309419431 / 2 ^ 60) = Inr (5488776097124601 / 2 ^ 34)"
    unfolding float_div_def r(3,4) by simp_all
  show ?thesis
    unfolding nendb_resources_tail_def resources_fallback_result_def r(1,2)
    by (simp only: py_bind_Inr option.case d g)
qed

lemma fair_result_fallback:
  "nendb_fair_result (round_double (4547 / 1000000)) (round_double (2881 / 1000000))
     = Inr fair_fallback_result"
proof -
  have r: "round_double (4547 / 1000000) = 5242334081447333 / 2 ^ 60"
    "round_double (2881 / 1000000) = 1660783427386163 / 2 ^ 59"
    "round_double (1000 / (5242334081447333 / 2 ^ 60)) = 7556573206069937 / 2 ^ 35"
    "round_double (1000 / (1660783427386163 / 2 ^ 59)) = 5963161813259285 / 2 ^ 34"
    by (simp_all add: round_double_eval)
  have d: "float_div 1000 (5242334081447333 / 2 ^ 60) = Inr (7556573206069937 / 2 ^ 35)"
    "float_div 1000 (1660783427386163 / 2 ^ 59) = Inr (5963161813259285 / 2 ^ 34)"
    unfolding float_div_def r(3,4) by simp_all
  show ?thesis
    unfolding nendb_fair_result_def fair_fallback_result_def r(1,2) d
    by (simp only: py_bind_Inr)
qed

lemma no_insert_marker_parse:
  assumes "\<not> sublist ''ms per insert'' output"
    and "parse_output to_float output = Inr (insert_time, lookup_time)"
  shows "insert_time = None"
proof -
  have "\<forall>line \<in> set (py_split [CHR 0x0A] output). \<not> is_insert_line line"
    using no_marker_in_lines [OF assms(1)] by (auto simp: is_insert_line_def)
  from parse_times_no_insert [OF this] assms(2) show ?thesis
    by (simp add: parse_output_def)
qed

lemma no_markers_parse:
  assumes "\<not> sublist ''ms per insert'' output" and "\<not> sublist ''ms per lookup'' output"
  shows "parse_output to_float output = Inr (None, None)"
proof -
  have "\<forall>line \<in> set (py_split [CHR 0x0A] output). \<not> is_insert_line line"
    using no_marker_in_lines [OF assms(1)] by (auto simp: is_insert_line_def)
  moreover have "\<forall>line \<in> set (py_split [CHR 0x0A] output). \<not> is_lookup_line line"
    using no_marker_in_lines [OF assms(2)] by (auto simp: is_lookup_line_def)
  ultimately show ?thesis
    unfolding parse_output_def by (rule parse_times_no_marker)
qed

lemma no_lookup_marker_parse:
  assumes "\<not> sublist ''ms per lookup'' output"
    and "parse_output to_float output = Inr (insert_time, lookup_time)"
  shows "lookup_time = None"
proof -
  have "\<forall>line \<in> set (py_split [CHR 0x0A] output). \<not> is_lookup_line line"
    using no_marker_in_lines [OF assms(1)] by (auto simp: is_lookup_line_def)
  from parse_times_no_lookup [OF this] assms(2) show ?thesis
    by (simp add: parse_output_def)
qed

lemma benchmark_nendb_resources_cases:
  assumes "cpu_usage \<noteq> []" and "memory_usage \<noteq> []"
  shows "benchmark_nendb_resources to_float cpu_usage memory_usage disk_io output =
     (case parse_output to_float output of
        Inl e \<Rightarrow> []
      | Inr (None, lookup_time) \<Rightarrow> resources_fallback_result cpu_usage memory_usage disk_io
      | Inr (Some t, lookup_time) \<Rightarrow>
          (case monitor_resources_return cpu_usage memory_usage disk_io of
             Inl e \<Rightarrow> []
           | Inr baseline \<Rightarrow> except_empty (nendb_resources_tail baseline t lookup_time)))"
proof -
  obtain baseline where b: "monitor_resources_return cpu_usage memory_usage disk_io = Inr baseline"
    using monitor_resources_return_nonempty [OF assms] by blast
  note f = resources_tail_fallback [OF assms b]
  show ?thesis
  proof (cases "parse_output to_float output")
    case (Inl e)
    then show ?thesis
      by (simp add: benchmark_nendb_resources_def b except_empty_def)
  next
    case (Inr p)
    obtain i l where p: "p = (i, l)" by (cases p)
    show ?thesis
    proof (cases i)
      case None
      show ?thesis
        by (simp only: benchmark_nendb_resources_def b Inr p None py_bind_Inr prod.case
            option.case sum.case f except_empty_def)
    next
      case (Some t)
      show ?thesis
        by (simp only: benchmark_nendb_resources_def b Inr p Some py_bind_Inr prod.case
            option.case sum.case)
    qed
  qed
qed

lemma benchmark_nendb_resources_empty:
  assumes "parse_output to_float output = Inr (Some t, None)"
  shows "benchmark_nendb_resources to_float cpu_usage memory_usage disk_io output = []"
proof (cases "monitor_resources_return cpu_usage memory_usage disk_io")
  case (Inl e)
  then show ?thesis by (simp add: benchmark_nendb_resources_def except_empty_def)
next
  case (Inr baseline)
  then show ?thesis
    by (simp add: benchmark_nendb_resources_def assms nendb_resources_tail_None
        except_empty_def)
qed

lemma benchmark_nendb_resources_raised:
  assumes "parse_output to_float output = Inl e"
  shows "benchmark_nendb_resources to_float cpu_usage memory_usage disk_io output = []"
  by (cases "monitor_resources_return cpu_usage memory_usage disk_io")
     (simp_all add: benchmark_nendb_resources_def assms except_empty_def)

lemma benchmark_nendb_accurate_empty:
  assumes "parse_output to_float output = Inr (Some t, None) \<or> parse_output to_float output = Inl e"
  shows "benchmark_nendb_accurate to_float output cpu_usage memory_usage = []"
  using assms
  by (auto simp: benchmark_nendb_accurate_def nendb_accurate_tail_None except_empty_def)

lemma insert_line_lookup_free_parse:
  assumes "\<exists>line \<in> set (py_split [CHR 0x0A] output).
             sublist ''Average:'' line \<and> sublist ''ms per insert'' line"
    and "\<not> sublist ''ms per lookup'' output"
    and "parse_output to_float output = Inr (insert_time, lookup_time)"
  shows "insert_time \<noteq> None \<and> lookup_time = None"
proof -
  from assms(1) have "\<exists>line \<in> set (py_split [CHR 0x0A] output). is_insert_line line"
    by (simp add: is_insert_line_def contains_def)
  from parse_times_sets_insert [OF this] assms(3) have "insert_time \<noteq> None"
    by (simp add: parse_output_def)
  with no_lookup_marker_parse [OF assms(2,3)] show ?thesis by simp
qed

section \<open>The claims\<close>

text \<open>
  C1 (as stated). For the empty series \<open>monitor_process_resources\<close> does not fail with an
  error: its guard returns the empty dictionary, a value.
\<close>

theorem empty_process_series_returns_value:
  "monitor_process_return [] [] = Inr [] \<and> \<not> isl (monitor_process_return [] [])"
  by (simp add: monitor_process_return_def)

text \<open>
  C1 (amended). Aggregating an empty sample series never yields statistics, zero-filled
  or other. The \<open>return\<close> of \<open>monitor_resources\<close> raises \<open>StatisticsError\<close> (from
  \<open>statistics.mean\<close>) and that of \<open>monitor_system_resources\<close> raises \<open>ZeroDivisionError\<close>;
  \<open>monitor_process_resources\<close> raises nothing and returns the empty dictionary, which has
  no key at all. The benchmark that called for the baseline gives up with \<open>{}\<close> in each
  case. This holds whatever the other lists hold.
\<close>

theorem empty_series_gives_no_stats:
  "monitor_resources_return [] memory_usage disk_io = Inl StatisticsError
   \<and> monitor_system_return [] memory_usage = Inl ZeroDivisionError
   \<and> monitor_process_return [] memory_usage = Inr []
   \<and> monitor_process_return cpu_usage [] = Inr []
   \<and> benchmark_memgraph_resources [] memory_usage disk_io creation_time lookup_time = []
   \<and> benchmark_memgraph_accurate procs [] memory_usage creation_time = []"
  by (simp add: monitor_resources_return_def monitor_system_return_def
      monitor_process_return_def benchmark_memgraph_resources_def
      benchmark_memgraph_accurate_def mean_def float_div_def sum_py_def except_empty_def
      split: option.split)

theorem empty_series_gives_no_stats_witness:
  "monitor_resources_return [] [] [] = Inl StatisticsError
   \<and> monitor_system_return [] [] = Inl ZeroDivisionError
   \<and> monitor_process_return [] [] = Inr []
   \<and> monitor_process_return [12] [] = Inr []
   \<and> benchmark_memgraph_resources [] [] [] 2 1 = []
   \<and> benchmark_memgraph_accurate
         [\<lparr>pid = 7, name = Some ''memgraph'', cmdline = None\<rparr>] [] [] 2 = []"
  using empty_series_gives_no_stats
          [of "[]" "[]" "[12]" 2 1 "[\<lparr>pid = 7, name = Some ''memgraph'', cmdline = None\<rparr>]"]
  by simp

text \<open>
  C2. The claim orders minimum, mean and maximum of every non-empty series. The \<open>return\<close>
  of \<open>monitor_process_resources\<close> computes the mean as \<open>sum(cpu_usage) / len(cpu_usage)\<close> in
  floats and breaks the order: for three CPU readings of \<open>0.1\<close> the sum is
  \<open>0.30000000000000004\<close> and \<open>cpu_avg\<close> is \<open>0.10000000000000002\<close>, above \<open>cpu_max = 0.1\<close>. The
  \<open>return\<close> of \<open>monitor_resources\<close>, which uses \<open>statistics.mean\<close>, gives \<open>cpu_avg = 0.1\<close>
  on the same readings. The run shown first takes three samples of 64 MB in a budget of
  six seconds. (\<open>0.1\<close> is the double \<open>3602879701896397 / 2^55\<close>,
  \<open>0.10000000000000002\<close> is \<open>7205759403792795 / 2^56\<close>.)
\<close>

theorem sum_len_average_exceeds_max:
  "monitor_process_resources 6
     [(0, Sampled (round_double (1 / 10)) 67108864),
      (2, Sampled (round_double (1 / 10)) 67108864),
      (4, Sampled (round_double (1 / 10)) 67108864),
      (6, Sampled (round_double (1 / 10)) 67108864)]
     = Some (Inr [(''cpu_avg'', PyFloat (7205759403792795 / 2 ^ 56)),
                  (''cpu_max'', PyFloat (3602879701896397 / 2 ^ 55)),
                  (''cpu_min'', PyFloat (3602879701896397 / 2 ^ 55)),
                  (''memory_avg_mb'', PyFloat 64),
                  (''memory_max_mb'', PyFloat 64),
                  (''memory_min_mb'', PyFloat 64)])
   \<and> monitor_process_return
     [round_double (1 / 10), round_double (1 / 10), round_double (1 / 10)] [64]
     = Inr [(''cpu_avg'', PyFloat (7205759403792795 / 2 ^ 56)),
            (''cpu_max'', PyFloat (3602879701896397 / 2 ^ 55)),
            (''cpu_min'', PyFloat (3602879701896397 / 2 ^ 55)),
            (''memory_avg_mb'', PyFloat 64),
            (''memory_max_mb'', PyFloat 64),
            (''memory_min_mb'', PyFloat 64)]
   \<and> (3602879701896397 / 2 ^ 55 :: real) < 7205759403792795 / 2 ^ 56
   \<and> monitor_resources_return
     [round_double (1 / 10), round_double (1 / 10), round_double (1 / 10)] [64] []
     = Inr [(''cpu_avg'', PyFloat (3602879701896397 / 2 ^ 55)),
            (''cpu_max'', PyFloat (3602879701896397 / 2 ^ 55)),
            (''cpu_min'', PyFloat (3602879701896397 / 2 ^ 55)),
            (''memory_avg_gb'', PyFloat 64),
            (''memory_max_gb'', PyFloat 64),
            (''memory_min_gb'', PyFloat 64),
            (''disk_read_total_mb'', PyFloat 0),
            (''disk_write_total_mb'', PyFloat 0)]"
  by (simp add: monitor_process_resources_def monitor_process_return_nonempty
      monitor_resources_return_nonempty sum_py_def float_add_def round_double_eval)









text \<open>
  C6 (as stated). A run in which the process vanishes after three full passes, between
  the CPU read and the memory read of the fourth: the loop leaves with four CPU samples
  and three memory samples, not with a series of exactly three samples.
\<close>

theorem partial_series_not_exactly_k:
  "sample_process 10
     [(0, Sampled 5 1048576), (2, Sampled 6 2097152), (4, Sampled 7 1048576),
      (6, MemGone 8), (8, Sampled 9 1048576)] [] []
     = Some ([5, 6, 7, 8], [1, 2, 1])
   \<and> map_option (\<lambda>(cpu_usage, memory_usage). (length cpu_usage, length memory_usage))
       (sample_process 10
          [(0, Sampled 5 1048576), (2, Sampled 6 2097152), (4, Sampled 7 1048576),
           (6, MemGone 8), (8, Sampled 9 1048576)] [] [])
     = Some (4, 3)"
  by simp

text \<open>
  C6 (amended). When the process vanishes after \<open>k\<close> full passes inside the time budget,
  the loop of \<open>monitor_process_resources\<close> leaves at that pass without raising, whatever
  would have followed. The memory list holds exactly the \<open>k\<close> samples of the full passes;
  the CPU list holds the same \<open>k\<close> samples, and one more reading when the process vanished
  between the CPU read and the memory read. Nothing is padded. The function does not hand
  out the lists: it returns a dictionary, the statistics over the two lists when \<open>k > 0\<close>
  and the empty dictionary when \<open>k = 0\<close>.
\<close>

theorem process_vanishes_partial_series:
  assumes "in_budget duration oks" and "elapsed < real_of_int duration" and "is_gone gone"
  shows "\<exists>cpu_usage memory_usage.
       sample_process duration (vanishing_trace oks elapsed gone rest) [] []
         = Some (cpu_usage, memory_usage)
     \<and> memory_usage = map (\<lambda>(e, cpu_percent, rss). real_of_int rss / (1024 * 1024)) oks
     \<and> cpu_usage = map (\<lambda>(e, cpu_percent, rss). cpu_percent) oks @ extra_cpu gone
     \<and> length memory_usage = length oks
     \<and> (length cpu_usage = length oks \<or> length cpu_usage = length oks + 1)
     \<and> (length cpu_usage = length oks \<longleftrightarrow> gone = CpuGone)
     \<and> monitor_process_resources duration (vanishing_trace oks elapsed gone rest)
         = Some (monitor_process_return cpu_usage memory_usage)
     \<and> (\<exists>d. monitor_process_return cpu_usage memory_usage = Inr d \<and> (d = [] \<longleftrightarrow> oks = []))"
proof -
  let ?cpu = "map (\<lambda>(e, cpu_percent, rss). cpu_percent) oks @ extra_cpu gone"
  let ?mem = "map (\<lambda>(e, cpu_percent, rss). real_of_int rss / (1024 * 1024)) oks"
  have run: "sample_process duration (vanishing_trace oks elapsed gone rest) [] []
               = Some (?cpu, ?mem)"
    using sample_process_vanishing [OF assms, of rest "[]" "[]"] by simp
  have len: "(length ?cpu = length oks \<or> length ?cpu = length oks + 1)
             \<and> (length ?cpu = length oks \<longleftrightarrow> gone = CpuGone)"
    using assms(3) by (cases gone) (simp_all add: extra_cpu_def is_gone_def)
  have ret: "\<exists>d. monitor_process_return ?cpu ?mem = Inr d \<and> (d = [] \<longleftrightarrow> oks = [])"
  proof (cases "oks = []")
    case True
    then show ?thesis by (simp add: monitor_process_return_def)
  next
    case False
    then have "?cpu \<noteq> []" and "?mem \<noteq> []" by simp_all
    from monitor_process_return_nonempty [OF this] False show ?thesis by simp
  qed
  have mon: "monitor_process_resources duration (vanishing_trace oks elapsed gone rest)
               = Some (monitor_process_return ?cpu ?mem)"
    by (simp add: monitor_process_resources_def run)
  show ?thesis
    using run len ret mon
    by - (rule exI [of _ ?cpu], rule exI [of _ ?mem], auto)
qed

theorem process_vanishes_partial_series_witness:
  "\<exists>cpu_usage memory_usage.
       sample_process 10
          (vanishing_trace [(0, 5, 1048576), (2, 6, 2097152), (4, 7, 1048576)] 6 (MemGone 8)
             [(8, Sampled 9 1048576)]) [] []
         = Some (cpu_usage, memory_usage)
     \<and> memory_usage = [1, 2, 1]
     \<and> cpu_usage = [5, 6, 7, 8]
     \<and> monitor_process_resources 10
          (vanishing_trace [(0, 5, 1048576), (2, 6, 2097152), (4, 7, 1048576)] 6 (MemGone 8)
             [(8, Sampled 9 1048576)])
         = Some (monitor_process_return cpu_usage memory_usage)
     \<and> (\<exists>d. monitor_process_return cpu_usage memory_usage = Inr d \<and> d \<noteq> [])"
proof -
  have h: "in_budget 10 [(0, 5, 1048576), (2, 6, 2097152), (4, 7, 1048576)]"
    "(6::real) < real_of_int 10" "is_gone (MemGone 8)"
    by (simp_all add: in_budget_def is_gone_def)
  show ?thesis
    using process_vanishes_partial_series [OF h, of "[(8, Sampled 9 1048576)]"]
    by (simp add: extra_cpu_def)
qed

text \<open>
  C7. The locators match a process exactly when its short name or a token of its command
  line contains the hint case-insensitively, return the first match in the order of the
  process list, and return \<open>None\<close>, a value and no exception, when nothing matches. The
  source has no hint parameter: \<open>find_memgraph_process\<close> fixes the hint \<open>memgraph\<close> and
  \<open>find_nendb_process\<close> the hint \<open>nen\<close> (its second test, \<open>nendb\<close>, is subsumed). Both are
  functions of the process list alone.
\<close>

theorem locator_first_match:
  "find_memgraph_process procs = List.find (matches_hint ''memgraph'') procs
   \<and> find_nendb_process procs = List.find (matches_hint ''nen'') procs
   \<and> (find_memgraph_process procs = None
        \<longleftrightarrow> \<not> (\<exists>proc \<in> set procs. matches_hint ''memgraph'' proc))
   \<and> (find_nendb_process procs = None
        \<longleftrightarrow> \<not> (\<exists>proc \<in> set procs. matches_hint ''nen'' proc))
   \<and> (\<forall>proc. find_memgraph_process procs = Some proc \<longleftrightarrow>
         (\<exists>i < length procs. procs ! i = proc \<and> matches_hint ''memgraph'' proc
            \<and> (\<forall>j < i. \<not> matches_hint ''memgraph'' (procs ! j))))
   \<and> (\<forall>proc. find_nendb_process procs = Some proc \<longleftrightarrow>
         (\<exists>i < length procs. procs ! i = proc \<and> matches_hint ''nen'' proc
            \<and> (\<forall>j < i. \<not> matches_hint ''nen'' (procs ! j))))"
  unfolding find_memgraph_process_find find_nendb_process_find
  by (auto simp: find_None_iff find_Some_iff)

theorem locator_first_match_witness:
  "find_memgraph_process
     [\<lparr>pid = 1, name = Some ''launchd'', cmdline = Some [''/sbin/launchd'']\<rparr>,
      \<lparr>pid = 9, name = Some ''mem'', cmdline = Some [''mem'', ''graph'']\<rparr>,
      \<lparr>pid = 42, name = Some ''MemGraph'', cmdline = None\<rparr>,
      \<lparr>pid = 50, name = Some ''python3'', cmdline = Some [''python3'', ''run_NenDB.py'']\<rparr>]
     = Some \<lparr>pid = 42, name = Some ''MemGraph'', cmdline = None\<rparr>
   \<and> matches_hint ''memgraph'' \<lparr>pid = 42, name = Some ''MemGraph'', cmdline = None\<rparr>
   \<and> find_nendb_process
     [\<lparr>pid = 1, name = Some ''launchd'', cmdline = Some [''/sbin/launchd'']\<rparr>,
      \<lparr>pid = 9, name = Some ''mem'', cmdline = Some [''mem'', ''graph'']\<rparr>,
      \<lparr>pid = 42, name = Some ''MemGraph'', cmdline = None\<rparr>,
      \<lparr>pid = 50, name = Some ''python3'', cmdline = Some [''python3'', ''run_NenDB.py'']\<rparr>]
     = Some \<lparr>pid = 50, name = Some ''python3'', cmdline = Some [''python3'', ''run_NenDB.py'']\<rparr>
   \<and> find_memgraph_process
     [\<lparr>pid = 9, name = Some ''mem'', cmdline = Some [''mem'', ''graph'']\<rparr>] = None
   \<and> \<not> matches_hint ''memgraph'' \<lparr>pid = 9, name = Some ''mem'', cmdline = Some [''mem'', ''graph'']\<rparr>"
proof -
  let ?procs =
    "[\<lparr>pid = 1, name = Some ''launchd'', cmdline = Some [''/sbin/launchd'']\<rparr>,
      \<lparr>pid = 9, name = Some ''mem'', cmdline = Some [''mem'', ''graph'']\<rparr>,
      \<lparr>pid = 42, name = Some ''MemGraph'', cmdline = None\<rparr>,
      \<lparr>pid = 50, name = Some ''python3'', cmdline = Some [''python3'', ''run_NenDB.py'']\<rparr>]"
  let ?split = "\<lparr>pid = 9, name = Some ''mem'', cmdline = Some [''mem'', ''graph'']\<rparr>"
  have a: "find_memgraph_process ?procs
             = Some \<lparr>pid = 42, name = Some ''MemGraph'', cmdline = None\<rparr>"
    by (simp add: contains_def lower_def lower_char_def sublist_code prefix_code)
  have b: "find_nendb_process ?procs
             = Some \<lparr>pid = 50, name = Some ''python3'',
                      cmdline = Some [''python3'', ''run_NenDB.py'']\<rparr>"
    by (simp add: contains_def lower_def lower_char_def sublist_code prefix_code)
  have c: "find_memgraph_process [?split] = None"
    by (simp add: contains_def lower_def lower_char_def sublist_code prefix_code)
  note t = locator_first_match [of ?procs]
  note u = locator_first_match [of "[?split]"]
  from t a have d: "matches_hint ''memgraph'' \<lparr>pid = 42, name = Some ''MemGraph'', cmdline = None\<rparr>"
    by blast
  from u c have "\<not> (\<exists>proc \<in> set [?split]. matches_hint ''memgraph'' proc)"
    by blast
  then have e: "\<not> matches_hint ''memgraph'' ?split"
    by simp
  from a b c d e show ?thesis by (simp only: simp_thms)
qed

text \<open>
  C8 (as stated). In the fair report with every metric tied and both qualitative flags
  of NenDB set, the score is 2 although NenDB wins no metric strictly: the score does not
  count exactly the metrics won.
\<close>

theorem score_counts_flags_too:
  "fair_score 1 1 1 1 1 1 1 1 True True = (2, 6)"
  by (simp add: fair_score_def)

text \<open>
  C8 (amended). The composite score is the number of compared metrics on which NenDB wins
  strictly, a tie giving no point, plus the number of NenDB's boolean qualitative flags
  that are set; a flag is read from NenDB's side alone and compared with nothing. The
  maximum is the number of compared metrics plus the number of flags: 4 and 2 in the
  fair report, 6 and 2 in the competitive report, 6 and 0 in the resource report.
\<close>

theorem composite_score_counts:
  "fair_score nendb_single_create memgraph_single_create nendb_batch_create
     memgraph_batch_create nendb_tp memgraph_tp nendb_mem memgraph_mem
     zero_fragmentation predictable_performance
     = (count_true [nendb_single_create < memgraph_single_create,
                    nendb_batch_create < memgraph_batch_create,
                    memgraph_tp < nendb_tp,
                    nendb_mem < memgraph_mem]
        + count_true [zero_fragmentation, predictable_performance],
        4 + 2)
   \<and> competitive_score c_nendb_mem neo4j_mem c_memgraph_mem nendb_insert neo4j_insert
       memgraph_insert c_nendb_tp neo4j_tp c_memgraph_tp
       zero_fragmentation predictable_performance
     = (count_true [c_nendb_mem < neo4j_mem,
                    c_nendb_mem < c_memgraph_mem,
                    nendb_insert < neo4j_insert,
                    nendb_insert < memgraph_insert,
                    neo4j_tp < c_nendb_tp,
                    c_memgraph_tp < c_nendb_tp]
        + count_true [zero_fragmentation, predictable_performance],
        6 + 2)
   \<and> resource_score nendb_create memgraph_create nendb_cpu memgraph_cpu r_nendb_mem
       r_memgraph_mem nendb_read nendb_write memgraph_read memgraph_write
     = (count_true [memgraph_create < nendb_create,
                    nendb_cpu < memgraph_cpu,
                    r_nendb_mem < r_memgraph_mem,
                    (if 0 < memgraph_cpu then round_double (memgraph_create / memgraph_cpu)
                     else 0)
                      < (if 0 < nendb_cpu then round_double (nendb_create / nendb_cpu) else 0),
                    (if 0 < r_memgraph_mem
                     then round_double (memgraph_create / r_memgraph_mem) else 0)
                      < (if 0 < r_nendb_mem then round_double (nendb_create / r_nendb_mem)
                         else 0),
                    round_double (nendb_read + nendb_write)
                      < round_double (memgraph_read + memgraph_write)],
        6 + 0)"
proof -
  have s: "(if c then n + 1 else n) = n + (if c then 1 else 0)" for c and n :: nat
    by simp
  have t: "count_true (c # cs) = (if c then 1 else 0) + count_true cs" "count_true [] = 0"
    for c cs
    by (simp_all add: count_true_def)
  show ?thesis
    unfolding fair_score_def competitive_score_def resource_score_def Let_def per_unit_def
      float_add_def s t
    by simp
qed

theorem composite_score_counts_witness:
  "fair_score 2 5 3 3 9 4 144 200 True False = (4, 6)
   \<and> competitive_score 144 500 200 2 2 7 10 3 10 True False = (5, 8)
   \<and> resource_score 3000 1000 10 50 8 8 0 0 4 4 = (5, 6)"
proof -
  have r: "round_double 20 = 20" "round_double 300 = 300"
    "round_double 125 = 125" "round_double 375 = 375"
    "round_double 0 = 0" "round_double 8 = 8"
    by (simp_all add: round_double_eval)
  show ?thesis
    using composite_score_counts [of 2 5 3 3 9 4 144 200 True False
        144 500 200 2 2 7 10 3 10 3000 1000 10 50 8 8 0 0 4 4]
    by (simp add: count_true_def r)
qed



text \<open>
  C10. When some line of the output is an insert line (it contains \<open>Average:\<close> and
  \<open>ms per insert\<close>) and the output nowhere contains \<open>ms per lookup\<close>, the parser of the two
  resource benchmarks, where it returns, has set the insert time and left the lookup
  time \<open>None\<close>. Their fallback tests the insert time alone and is not applied, the rate
  \<open>1000 / lookup_time\<close> raises (a \<open>TypeError\<close>, or already \<open>ZeroDivisionError\<close> for an insert
  time of zero), and \<open>benchmark_nendb_resources\<close> and \<open>benchmark_nendb_accurate\<close> return the
  empty dictionary, not a partial result.
\<close>

theorem lookup_missing_empties_result:
  assumes "\<exists>line \<in> set (py_split [CHR 0x0A] output).
             sublist ''Average:'' line \<and> sublist ''ms per insert'' line"
    and "\<not> sublist ''ms per lookup'' output"
  shows "benchmark_nendb_resources to_float cpu_usage memory_usage disk_io output = []
       \<and> benchmark_nendb_accurate to_float output cpu_usage memory_usage = []
       \<and> (\<forall>insert_time lookup_time.
             parse_output to_float output = Inr (insert_time, lookup_time) \<longrightarrow>
             insert_time \<noteq> None \<and> lookup_time = None)
       \<and> (\<forall>baseline_resources t.
             nendb_resources_tail baseline_resources t None
               = Inl (if t = 0 then ZeroDivisionError else TypeError))
       \<and> (\<forall>t. nendb_accurate_tail t None cpu_usage memory_usage
               = Inl (if t = 0 then ZeroDivisionError else TypeError))"
proof -
  note p = insert_line_lookup_free_parse [OF assms]
  have "benchmark_nendb_resources to_float cpu_usage memory_usage disk_io output = []
        \<and> benchmark_nendb_accurate to_float output cpu_usage memory_usage = []"
  proof (cases "parse_output to_float output")
    case (Inl e)
    from benchmark_nendb_resources_raised [OF Inl] benchmark_nendb_accurate_empty [of _ _ _ e]
      Inl
    show ?thesis by blast
  next
    case (Inr r)
    obtain i l where r: "r = (i, l)" by (cases r)
    with Inr p obtain t where "parse_output to_float output = Inr (Some t, None)"
      by (cases i) auto
    from benchmark_nendb_resources_empty [OF this] benchmark_nendb_accurate_empty [of _ _ t] this
    show ?thesis by blast
  qed
  with p show ?thesis
    by (simp add: nendb_resources_tail_None nendb_accurate_tail_None)
qed

theorem lookup_missing_empties_result_witness:
  "benchmark_nendb_resources float_decimal [50] [8] []
       (''Average: n/a'' @ [CHR 0x0A] @ ''Average: 0.5ms per insert'') = []
   \<and> benchmark_nendb_accurate float_decimal
       (''Average: n/a'' @ [CHR 0x0A] @ ''Average: 0.5ms per insert'') [50] [8] = []
   \<and> parse_output float_decimal
       (''Average: n/a'' @ [CHR 0x0A] @ ''Average: 0.5ms per insert'')
       = Inr (Some (1 / 2), None)"
proof -
  let ?out = "''Average: n/a'' @ [CHR 0x0A] @ ''Average: 0.5ms per insert''"
  have h: "\<exists>line \<in> set (py_split [CHR 0x0A] ?out).
             sublist ''Average:'' line \<and> sublist ''ms per insert'' line"
    "\<not> sublist ''ms per lookup'' ?out"
    by (simp_all add: py_split_def sublist_code prefix_code)
  have p: "parse_output float_decimal ?out = Inr (Some (1 / 2), None)"
    by (simp add: parse_output_def py_split_def is_insert_line_def is_lookup_line_def
        contains_def sublist_code prefix_code extract_average_def strip_def is_space_def
        float_decimal_def digit_of_def round_double_eval)
  from lookup_missing_empties_result [OF h, of float_decimal "[50]" "[8]" "[]"] p
  show ?thesis by (simp only: simp_thms)
qed

end
